theory Spec2Isabelle
  imports Complex_Main
begin

section \<open>Python floats: IEEE 754 binary64\<close>

text \<open>
  The sources compute with Python \<^verbatim>\<open>float\<close>, an IEEE 754 binary64 number. A float is
  modelled by its value: a finite real (which is \<open>+0.0\<close> when it is zero), the negative
  zero, the two infinities, or a NaN. Every arithmetic operation computes the exact real
  result and rounds it to the nearest binary64 number, ties to even, overflowing to an
  infinity, as the hardware does.
\<close>

datatype pyfloat = Finite real | NegZero | PInf | NInf | NaN

datatype py_error =
  ValueError string | OverflowError string | ZeroDivisionError string | IndexError string

fun fval :: "pyfloat \<Rightarrow> real" where
  "fval (Finite r) = r"
| "fval _ = 0"

fun is_finite :: "pyfloat \<Rightarrow> bool" where
  "is_finite (Finite r) = True"
| "is_finite NegZero = True"
| "is_finite _ = False"

fun is_nan :: "pyfloat \<Rightarrow> bool" where
  "is_nan NaN = True"
| "is_nan _ = False"

fun is_inf :: "pyfloat \<Rightarrow> bool" where
  "is_inf PInf = True"
| "is_inf NInf = True"
| "is_inf _ = False"

text \<open>The sign bit (of a NaN it is never looked at).\<close>

fun signbit :: "pyfloat \<Rightarrow> bool" where
  "signbit (Finite r) = (r < 0)"
| "signbit NegZero = True"
| "signbit NInf = True"
| "signbit _ = False"

text \<open>Rounding a real to the nearest integer, ties to the even one.\<close>

definition rhe :: "real \<Rightarrow> int" where
  "rhe y =
     (let f = \<lfloor>y\<rfloor>; d = y - of_int f
      in if d < 1 / 2 then f
         else if 1 / 2 < d then f + 1
         else if even f then f else f + 1)"

text \<open>
  The binary exponent of a real in binary64: the largest \<open>e\<close> in \<open>-1022 .. 1023\<close> with
  \<open>2 ^ e \<le> |x|\<close>, and \<open>-1022\<close> for the subnormal range.
\<close>

definition expo :: "real \<Rightarrow> int" where
  "expo x = - 1022 + int (length (filter (\<lambda>e. 2 powi e \<le> \<bar>x\<bar>) [- 1021 .. 1023]))"

text \<open>
  Round to nearest, ties to even, with 53 significant bits: the unit in the last place
  of \<open>x\<close> is \<open>2 ^ (expo x - 52)\<close>. A result of magnitude \<open>2 ^ 1024\<close> or more is an
  infinity; a negative number that rounds to zero is the negative zero.
\<close>

definition rnd :: "real \<Rightarrow> pyfloat" where
  "rnd x =
     (let q = 2 powi (expo x - 52); y = of_int (rhe (x / q)) * q
      in if 2 ^ 1024 \<le> \<bar>y\<bar> then (if 0 < x then PInf else NInf)
         else if y = 0 \<and> x < 0 then NegZero
         else Finite y)"

text \<open>A decimal literal of the source denotes the nearest float.\<close>

definition float_lit :: "real \<Rightarrow> pyfloat" where
  "float_lit r = rnd r"

text \<open>\<^verbatim>\<open>float(n)\<close> for an integer: OverflowError when it rounds to an infinity.\<close>

definition float_of_int :: "int \<Rightarrow> py_error + pyfloat" where
  "float_of_int n =
     (if is_inf (rnd (of_int n)) then Inl (OverflowError ''int too large to convert to float'')
      else Inr (rnd (of_int n)))"

fun fneg :: "pyfloat \<Rightarrow> pyfloat" where
  "fneg (Finite r) = (if r = 0 then NegZero else Finite (- r))"
| "fneg NegZero = Finite 0"
| "fneg PInf = NInf"
| "fneg NInf = PInf"
| "fneg NaN = NaN"

fun fabs :: "pyfloat \<Rightarrow> pyfloat" where
  "fabs (Finite r) = Finite \<bar>r\<bar>"
| "fabs NegZero = Finite 0"
| "fabs PInf = PInf"
| "fabs NInf = PInf"
| "fabs NaN = NaN"

fun fadd :: "pyfloat \<Rightarrow> pyfloat \<Rightarrow> pyfloat" where
  "fadd NaN b = NaN"
| "fadd a NaN = NaN"
| "fadd PInf NInf = NaN"
| "fadd NInf PInf = NaN"
| "fadd PInf b = PInf"
| "fadd a PInf = PInf"
| "fadd NInf b = NInf"
| "fadd a NInf = NInf"
| "fadd NegZero NegZero = NegZero"
| "fadd a b = (if fval a + fval b = 0 then Finite 0 else rnd (fval a + fval b))"

definition fsub :: "pyfloat \<Rightarrow> pyfloat \<Rightarrow> pyfloat" where
  "fsub a b = fadd a (fneg b)"

text \<open>A zero or infinite product or quotient takes the exclusive-or of the signs.\<close>

definition signed_zero :: "bool \<Rightarrow> pyfloat" where
  "signed_zero s = (if s then NegZero else Finite 0)"

definition signed_inf :: "bool \<Rightarrow> pyfloat" where
  "signed_inf s = (if s then NInf else PInf)"

definition fmul :: "pyfloat \<Rightarrow> pyfloat \<Rightarrow> pyfloat" where
  "fmul a b =
     (if is_nan a \<or> is_nan b then NaN
      else if is_inf a \<or> is_inf b then
        (if (is_finite a \<and> fval a = 0) \<or> (is_finite b \<and> fval b = 0) then NaN
         else signed_inf (signbit a \<noteq> signbit b))
      else if fval a * fval b = 0 then signed_zero (signbit a \<noteq> signbit b)
      else rnd (fval a * fval b))"

text \<open>Comparisons: false on a NaN, and the two zeros are equal.\<close>

fun fle :: "pyfloat \<Rightarrow> pyfloat \<Rightarrow> bool" where
  "fle NaN b = False"
| "fle a NaN = False"
| "fle NInf b = True"
| "fle a PInf = True"
| "fle PInf b = False"
| "fle a NInf = False"
| "fle a b = (fval a \<le> fval b)"

fun flt :: "pyfloat \<Rightarrow> pyfloat \<Rightarrow> bool" where
  "flt NaN b = False"
| "flt a NaN = False"
| "flt PInf b = False"
| "flt a NInf = False"
| "flt NInf b = True"
| "flt a PInf = True"
| "flt a b = (fval a < fval b)"

definition fgt :: "pyfloat \<Rightarrow> pyfloat \<Rightarrow> bool" where
  "fgt a b = flt b a"

text \<open>Truthiness of a float (\<^verbatim>\<open>if (x)\<close> in C): anything but a zero.\<close>

definition nonzero :: "pyfloat \<Rightarrow> bool" where
  "nonzero a = (\<not> (is_finite a \<and> fval a = 0))"


subsection \<open>C library and CPython float operations\<close>

text \<open>C's \<^verbatim>\<open>floor\<close>: exact, keeps zeros, infinities and NaN.\<close>

fun c_floor :: "pyfloat \<Rightarrow> pyfloat" where
  "c_floor (Finite r) = Finite (of_int \<lfloor>r\<rfloor>)"
| "c_floor a = a"

text \<open>IEEE division (the C operator), which Python's \<^verbatim>\<open>/\<close> guards against a zero divisor.\<close>

definition ieee_div :: "pyfloat \<Rightarrow> pyfloat \<Rightarrow> pyfloat" where
  "ieee_div a b =
     (if is_nan a \<or> is_nan b then NaN
      else if is_inf a then (if is_inf b then NaN else signed_inf (signbit a \<noteq> signbit b))
      else if is_inf b then signed_zero (signbit a \<noteq> signbit b)
      else if fval b = 0 then (if fval a = 0 then NaN else signed_inf (signbit a \<noteq> signbit b))
      else if fval a = 0 then signed_zero (signbit a \<noteq> signbit b)
      else rnd (fval a / fval b))"


text \<open>
  C's \<^verbatim>\<open>fmod\<close>: the exact remainder \<open>x - n * y\<close> with \<open>n\<close> the quotient truncated
  towards zero; it has the sign of \<open>x\<close>.
\<close>

definition trunc :: "real \<Rightarrow> int" where
  "trunc t = (if 0 \<le> t then \<lfloor>t\<rfloor> else \<lceil>t\<rceil>)"

definition c_fmod :: "pyfloat \<Rightarrow> pyfloat \<Rightarrow> pyfloat" where
  "c_fmod x y =
     (if is_nan x \<or> is_nan y then NaN
      else if is_inf x then NaN
      else if is_finite y \<and> fval y = 0 then NaN
      else if is_inf y then x
      else (let r = fval x - of_int (trunc (fval x / fval y)) * fval y
            in if r = 0 then signed_zero (signbit x) else Finite r))"

text \<open>
  CPython's \<^verbatim>\<open>float_rem\<close> (the operator \<^verbatim>\<open>%\<close>): the remainder takes the sign of the
  divisor.
\<close>

definition float_rem :: "pyfloat \<Rightarrow> pyfloat \<Rightarrow> py_error + pyfloat" where
  "float_rem v w =
     (if is_finite w \<and> fval w = 0 then Inl (ZeroDivisionError ''float modulo'')
      else (let m = c_fmod v w
            in if nonzero m then
                 (if flt w (Finite 0) \<noteq> flt m (Finite 0) then Inr (fadd m w) else Inr m)
               else Inr (signed_zero (signbit w))))"

text \<open>
  CPython's \<^verbatim>\<open>float_floor_div\<close> (the operator \<^verbatim>\<open>//\<close>): the quotient
  \<^verbatim>\<open>(vx - mod) / wx\<close>, corrected by one when the remainder changes sign, then snapped
  to the nearest integral value.
\<close>

definition float_floor_div :: "pyfloat \<Rightarrow> pyfloat \<Rightarrow> py_error + pyfloat" where
  "float_floor_div v w =
     (if is_finite w \<and> fval w = 0 then Inl (ZeroDivisionError ''float floor division by zero'')
      else (let m = c_fmod v w;
                d0 = ieee_div (fsub v m) w;
                d = (if nonzero m \<and> flt w (Finite 0) \<noteq> flt m (Finite 0)
                     then fsub d0 (Finite 1) else d0)
            in if nonzero d then
                 (let fl = c_floor d
                  in if fgt (fsub d fl) (float_lit 0.5) then Inr (fadd fl (Finite 1)) else Inr fl)
               else Inr (signed_zero (signbit (ieee_div v w)))))"

text \<open>\<^verbatim>\<open>int(x)\<close> of a float truncates towards zero and raises on NaN and infinities.\<close>

fun py_int :: "pyfloat \<Rightarrow> py_error + int" where
  "py_int (Finite r) = Inr (trunc r)"
| "py_int NegZero = Inr 0"
| "py_int NaN = Inl (ValueError ''cannot convert float NaN to integer'')"
| "py_int a = Inl (OverflowError ''cannot convert float infinity to integer'')"

text \<open>Sequencing of computations that may raise.\<close>

definition bind :: "py_error + 'a \<Rightarrow> ('a \<Rightarrow> py_error + 'b) \<Rightarrow> py_error + 'b" where
  "bind m f = (case m of Inl e \<Rightarrow> Inl e | Inr v \<Rightarrow> f v)"

subsection \<open>The math module\<close>

text \<open>
  The trigonometric functions are those of the platform's C library, which the sources
  do not fix: they are a parameter. CPython's wrapper \<^verbatim>\<open>math_1\<close> raises ValueError
  when the C function returns a NaN for an argument that is not one, or an infinity for
  a finite argument.
\<close>

record libm =
  c_tan :: "pyfloat \<Rightarrow> pyfloat"
  c_sin :: "pyfloat \<Rightarrow> pyfloat"
  c_cos :: "pyfloat \<Rightarrow> pyfloat"

definition math_1 :: "(pyfloat \<Rightarrow> pyfloat) \<Rightarrow> pyfloat \<Rightarrow> py_error + pyfloat" where
  "math_1 func x =
     (let r = func x
      in if is_nan r \<and> \<not> is_nan x then Inl (ValueError ''math domain error'')
         else if is_inf r \<and> is_finite x then Inl (ValueError ''math domain error'')
         else Inr r)"

definition math_tan :: "libm \<Rightarrow> pyfloat \<Rightarrow> py_error + pyfloat" where
  "math_tan lm x = math_1 (c_tan lm) x"



text \<open>
  \<^verbatim>\<open>math.radians(x)\<close> is \<^verbatim>\<open>x * degToRad\<close> with the constant
  \<^verbatim>\<open>degToRad = Py_MATH_PI / 180.0\<close>, where \<^verbatim>\<open>Py_MATH_PI\<close> is the literal
  \<^verbatim>\<open>3.14159265358979323846\<close>.
\<close>

definition Py_MATH_PI :: pyfloat where
  "Py_MATH_PI = float_lit 3.14159265358979323846"

definition degToRad :: pyfloat where
  "degToRad = ieee_div Py_MATH_PI (float_lit 180)"

definition math_radians :: "pyfloat \<Rightarrow> pyfloat" where
  "math_radians x = fmul x degToRad"

text \<open>
  A C library that follows Annex F of C99 on zeros, infinities and NaN and rounds the
  exact value correctly elsewhere. It serves where a concrete library is needed.
\<close>

definition correctly_rounded :: "(real \<Rightarrow> real) \<Rightarrow> pyfloat \<Rightarrow> pyfloat" where
  "correctly_rounded f x =
     (case x of
        Finite r \<Rightarrow> rnd (f r)
      | NegZero \<Rightarrow> (if f 0 = 0 then NegZero else rnd (f 0))
      | PInf \<Rightarrow> NaN
      | NInf \<Rightarrow> NaN
      | NaN \<Rightarrow> NaN)"

definition cr_libm :: libm where
  "cr_libm =
     \<lparr>c_tan = correctly_rounded tan, c_sin = correctly_rounded sin,
      c_cos = correctly_rounded cos\<rparr>"

subsection \<open>Strings and formatting\<close>

text \<open>
  A Python string is a list of characters; the degree sign, one code point in Python, is
  its two UTF-8 bytes here. No length of a string with a degree sign is ever taken.
\<close>

definition degree_sign :: string where
  "degree_sign = [CHR 0xC2, CHR 0xB0]"

definition digit_char :: "nat \<Rightarrow> char" where
  "digit_char n = ''0123456789'' ! n"

function str_nat :: "nat \<Rightarrow> string" where
  "str_nat n = (if n < 10 then [digit_char n] else str_nat (n div 10) @ [digit_char (n mod 10)])"
  by pat_completeness auto
termination
  by (relation "measure id") auto

definition str_int :: "int \<Rightarrow> string" where
  "str_int n = (if n < 0 then ''-'' @ str_nat (nat (- n)) else str_nat (nat n))"

definition zfill :: "nat \<Rightarrow> string \<Rightarrow> string" where
  "zfill w s = replicate (w - length s) (CHR ''0'') @ s"

text \<open>The format \<^verbatim>\<open>{n:02d}\<close> of an integer: zero-padded to two characters, sign included.\<close>

definition format_02d :: "int \<Rightarrow> string" where
  "format_02d n = (if n < 0 then ''-'' @ zfill 1 (str_nat (nat (- n))) else zfill 2 (str_nat (nat n)))"

text \<open>
  The format \<^verbatim>\<open>{x:.pf}\<close> of a float: the exact value rounded to \<open>p\<close> decimals, ties to
  even; \<open>scaled p r\<close> is the number of units of \<open>10 ^ - p\<close> that is printed.
\<close>

definition scaled :: "nat \<Rightarrow> real \<Rightarrow> nat" where
  "scaled p r = nat (rhe (\<bar>r\<bar> * 10 ^ p))"

definition fixed_digits :: "nat \<Rightarrow> nat \<Rightarrow> string" where
  "fixed_digits p n =
     str_nat (n div 10 ^ p) @ (if p = 0 then [] else ''.'' @ zfill p (str_nat (n mod 10 ^ p)))"

fun format_f :: "nat \<Rightarrow> pyfloat \<Rightarrow> string" where
  "format_f p (Finite r) = (if r < 0 then ''-'' else []) @ fixed_digits p (scaled p r)"
| "format_f p NegZero = ''-'' @ fixed_digits p 0"
| "format_f p PInf = ''inf''"
| "format_f p NInf = ''-inf''"
| "format_f p NaN = ''nan''"

text \<open>The decimal number that \<open>format_f p\<close> prints for a finite float.\<close>

definition printed_value :: "nat \<Rightarrow> pyfloat \<Rightarrow> real" where
  "printed_value p x = (if fval x < 0 then - 1 else 1) * real (scaled p (fval x)) / 10 ^ p"

text \<open>
  Strings are lists of bytes, the UTF-8 encoding of the Python string. \<^verbatim>\<open>needle in s\<close>
  on strings, for an ASCII needle, is the search of the bytes.
\<close>

primrec str_contains :: "string \<Rightarrow> string \<Rightarrow> bool" where
  "str_contains needle [] = (needle = [])"
| "str_contains needle (c # cs) =
     (take (length needle) (c # cs) = needle \<or> str_contains needle cs)"

text \<open>
  \<^verbatim>\<open>s.split()\<close> splits on runs of the characters that \<^verbatim>\<open>Py_UNICODE_ISSPACE\<close> accepts:
  the ASCII ones U+0009 to U+000D, U+001C to U+001F and U+0020, and U+0085, U+00A0,
  U+1680, U+2000 to U+200A, U+2028, U+2029, U+202F, U+205F and U+3000, here in their
  UTF-8 encoding. The first byte of each encoding is no continuation byte, so in the
  encoding of a string an occurrence of one of them is an occurrence of the character.
\<close>

definition is_space :: "char \<Rightarrow> bool" where
  "is_space c = (c \<in> set [CHR '' '', CHR 0x09, CHR 0x0A, CHR 0x0B, CHR 0x0C, CHR 0x0D,
                           CHR 0x1C, CHR 0x1D, CHR 0x1E, CHR 0x1F])"

definition unicode_spaces :: "string list" where
  "unicode_spaces =
     [[CHR 0xC2, CHR 0x85], [CHR 0xC2, CHR 0xA0], [CHR 0xE1, CHR 0x9A, CHR 0x80],
      [CHR 0xE2, CHR 0x80, CHR 0x80], [CHR 0xE2, CHR 0x80, CHR 0x81],
      [CHR 0xE2, CHR 0x80, CHR 0x82], [CHR 0xE2, CHR 0x80, CHR 0x83],
      [CHR 0xE2, CHR 0x80, CHR 0x84], [CHR 0xE2, CHR 0x80, CHR 0x85],
      [CHR 0xE2, CHR 0x80, CHR 0x86], [CHR 0xE2, CHR 0x80, CHR 0x87],
      [CHR 0xE2, CHR 0x80, CHR 0x88], [CHR 0xE2, CHR 0x80, CHR 0x89],
      [CHR 0xE2, CHR 0x80, CHR 0x8A], [CHR 0xE2, CHR 0x80, CHR 0xA8],
      [CHR 0xE2, CHR 0x80, CHR 0xA9], [CHR 0xE2, CHR 0x80, CHR 0xAF],
      [CHR 0xE2, CHR 0x81, CHR 0x9F], [CHR 0xE3, CHR 0x80, CHR 0x80]]"

text \<open>The number of bytes of the whitespace character that a string starts with, or 0.\<close>

definition space_length :: "string \<Rightarrow> nat" where
  "space_length s =
     (case s of [] \<Rightarrow> 0
      | c # cs \<Rightarrow>
          if is_space c then 1
          else (case List.find (\<lambda>w. take (length w) s = w) unicode_spaces of
                  None \<Rightarrow> 0 | Some w \<Rightarrow> length w))"

text \<open>
  \<^verbatim>\<open>split_from skip cur s\<close>: \<^verbatim>\<open>skip\<close> counts the bytes of a whitespace character still to
  pass, \<^verbatim>\<open>cur\<close> is the word read so far.
\<close>

fun split_from :: "nat \<Rightarrow> string \<Rightarrow> string \<Rightarrow> string list" where
  "split_from skip cur [] = (if cur = [] then [] else [cur])"
| "split_from skip cur (c # cs) =
     (if 0 < skip then split_from (skip - 1) cur cs
      else if 0 < space_length (c # cs)
        then (if cur = [] then split_from (space_length (c # cs) - 1) [] cs
              else cur # split_from (space_length (c # cs) - 1) [] cs)
      else split_from 0 (cur @ [c]) cs)"

definition str_split :: "string \<Rightarrow> string list" where
  "str_split s = split_from 0 [] s"

definition index0 :: "'a list \<Rightarrow> py_error + 'a" where
  "index0 xs = (case xs of [] \<Rightarrow> Inl (IndexError ''list index out of range'') | x # _ \<Rightarrow> Inr x)"


section \<open>yantra\_core.py\<close>

definition OBLIQUITY_ECLIPTIC :: pyfloat where
  "OBLIQUITY_ECLIPTIC = float_lit 23.44"

definition IST_REFERENCE_LONGITUDE :: pyfloat where
  "IST_REFERENCE_LONGITUDE = float_lit 82.5"

text \<open>
  \<^verbatim>\<open>calculate_time_offset\<close>. The integer operands \<open>4\<close>, \<open>60\<close> and \<open>3600\<close> are
  converted to floats, exactly. The three \<^verbatim>\<open>int(...)\<close> conversions may raise.
\<close>

definition calculate_time_offset :: "pyfloat \<Rightarrow> py_error + (string \<times> pyfloat)" where
  "calculate_time_offset longitude_lambda =
     (let longitude_difference = fsub longitude_lambda IST_REFERENCE_LONGITUDE;
          time_offset_minutes = fmul longitude_difference (Finite 4);
          abs_offset_seconds = fmul (fabs time_offset_minutes) (Finite 60)
      in bind (bind (float_floor_div abs_offset_seconds (Finite 3600)) py_int) (\<lambda>hours.
         bind (bind (bind (float_rem abs_offset_seconds (Finite 3600))
                       (\<lambda>r. float_floor_div r (Finite 60))) py_int) (\<lambda>minutes.
         bind (bind (float_rem abs_offset_seconds (Finite 60)) py_int) (\<lambda>seconds.
         let direction = (if fgt time_offset_minutes (Finite 0) then ''AHEAD OF'' else ''BEHIND'')
         in Inr (format_02d hours @ ''h '' @ format_02d minutes @ ''m '' @ format_02d seconds
                   @ ''s '' @ direction @ '' IST'',
                 time_offset_minutes)))))"

text \<open>The dictionary that \<^verbatim>\<open>calculate_yantra_dimensions\<close> returns, one field per key.\<close>

record yantra_dimensions =
  phi :: string
  lmbda :: string
  R :: string
  time_offset_str :: string
  time_offset_min :: pyfloat
  samrat_angle :: string
  samrat_height :: string
  nadivalaya_tilt :: string
  bhitti_alignment :: string
  rasivalaya_zd_ss :: string
  rasivalaya_zd_ws :: string
  eot_chart :: "(string \<times> pyfloat) list"

text \<open>
  \<^verbatim>\<open>calculate_yantra_dimensions\<close>. The arguments are floats already, on which
  \<^verbatim>\<open>float(...)\<close> is the identity, so the locals \<^verbatim>\<open>phi\<close>, \<^verbatim>\<open>lmbda\<close> and \<^verbatim>\<open>R\<close>
  are the arguments. \<^verbatim>\<open>math.tan\<close> and \<^verbatim>\<open>calculate_time_offset\<close> may raise, in this
  order.
\<close>

definition calculate_yantra_dimensions ::
  "libm \<Rightarrow> pyfloat \<Rightarrow> pyfloat \<Rightarrow> pyfloat \<Rightarrow> py_error + yantra_dimensions" where
  "calculate_yantra_dimensions lm latitude_phi longitude_lambda base_radius_R =
     (let phi_rad = math_radians latitude_phi;
          samrat_gnomon_angle = latitude_phi
      in bind (math_tan lm phi_rad) (\<lambda>t.
         let samrat_gnomon_height = fmul base_radius_R t;
             nadivalaya_tilt_angle = fsub (float_lit 90.0) latitude_phi;
             bhitti = ''Must be aligned precisely North-South (Local Meridian)'';
             ZD_eq = fsub (float_lit 90.0) latitude_phi;
             ZD_ss = fsub ZD_eq OBLIQUITY_ECLIPTIC;
             ZD_ws = fadd ZD_eq OBLIQUITY_ECLIPTIC
         in bind (calculate_time_offset longitude_lambda) (\<lambda>(offset_str, offset_min).
            Inr \<lparr>phi = format_f 4 latitude_phi @ degree_sign @ '' N'',
                 lmbda = format_f 4 longitude_lambda @ degree_sign @ '' E'',
                 R = format_f 3 base_radius_R,
                 time_offset_str = offset_str,
                 time_offset_min = offset_min,
                 samrat_angle = format_f 3 samrat_gnomon_angle @ degree_sign,
                 samrat_height = format_f 3 samrat_gnomon_height,
                 nadivalaya_tilt = format_f 3 nadivalaya_tilt_angle @ degree_sign,
                 bhitti_alignment = bhitti,
                 rasivalaya_zd_ss = format_f 3 ZD_ss @ degree_sign,
                 rasivalaya_zd_ws = format_f 3 ZD_ws @ degree_sign,
                 eot_chart = [(''Feb 11'', fneg (float_lit 14.2)), (''May 14'', float_lit 3.8),
                              (''Nov 03'', float_lit 16.4)]\<rparr>)))"

section \<open>yantra\_report\_app.py\<close>

text \<open>The report application carries its own copy of the constants and the calculator.\<close>

definition report_OBLIQUITY_ECLIPTIC :: pyfloat where
  "report_OBLIQUITY_ECLIPTIC = float_lit 23.44"

definition report_IST_REFERENCE_LONGITUDE :: pyfloat where
  "report_IST_REFERENCE_LONGITUDE = float_lit 82.5"

definition report_calculate_time_offset :: "pyfloat \<Rightarrow> py_error + (string \<times> pyfloat)" where
  "report_calculate_time_offset longitude_lambda =
     (let longitude_difference = fsub longitude_lambda report_IST_REFERENCE_LONGITUDE;
          time_offset_minutes = fmul longitude_difference (Finite 4);
          abs_offset_seconds = fmul (fabs time_offset_minutes) (Finite 60)
      in bind (bind (float_floor_div abs_offset_seconds (Finite 3600)) py_int) (\<lambda>hours.
         bind (bind (bind (float_rem abs_offset_seconds (Finite 3600))
                       (\<lambda>r. float_floor_div r (Finite 60))) py_int) (\<lambda>minutes.
         bind (bind (float_rem abs_offset_seconds (Finite 60)) py_int) (\<lambda>seconds.
         let direction = (if fgt time_offset_minutes (Finite 0) then ''AHEAD OF'' else ''BEHIND'')
         in Inr (format_02d hours @ ''h '' @ format_02d minutes @ ''m '' @ format_02d seconds
                   @ ''s '' @ direction @ '' IST'',
                 time_offset_minutes)))))"

definition report_calculate_yantra_dimensions ::
  "libm \<Rightarrow> pyfloat \<Rightarrow> pyfloat \<Rightarrow> pyfloat \<Rightarrow> py_error + yantra_dimensions" where
  "report_calculate_yantra_dimensions lm latitude_phi longitude_lambda base_radius_R =
     (let phi_rad = math_radians latitude_phi;
          samrat_gnomon_angle = latitude_phi
      in bind (math_tan lm phi_rad) (\<lambda>t.
         let samrat_gnomon_height = fmul base_radius_R t;
             nadivalaya_tilt_angle = fsub (float_lit 90.0) latitude_phi;
             bhitti = ''Must be aligned precisely North-South (Local Meridian)'';
             ZD_eq = fsub (float_lit 90.0) latitude_phi;
             ZD_ss = fsub ZD_eq report_OBLIQUITY_ECLIPTIC;
             ZD_ws = fadd ZD_eq report_OBLIQUITY_ECLIPTIC
         in bind (report_calculate_time_offset longitude_lambda) (\<lambda>(offset_str, offset_min).
            Inr \<lparr>phi = format_f 4 latitude_phi @ degree_sign @ '' N'',
                 lmbda = format_f 4 longitude_lambda @ degree_sign @ '' E'',
                 R = format_f 3 base_radius_R,
                 time_offset_str = offset_str,
                 time_offset_min = offset_min,
                 samrat_angle = format_f 3 samrat_gnomon_angle @ degree_sign,
                 samrat_height = format_f 3 samrat_gnomon_height,
                 nadivalaya_tilt = format_f 3 nadivalaya_tilt_angle @ degree_sign,
                 bhitti_alignment = bhitti,
                 rasivalaya_zd_ss = format_f 3 ZD_ss @ degree_sign,
                 rasivalaya_zd_ws = format_f 3 ZD_ws @ degree_sign,
                 eot_chart = [(''Feb 11'', fneg (float_lit 14.2)), (''May 14'', float_lit 3.8),
                              (''Nov 03'', float_lit 16.4)]\<rparr>)))"

section \<open>yantra\_app.py\<close>

text \<open>
  \<^verbatim>\<open>main\<close>. Each of the three prompts is modelled by the outcome of
  \<^verbatim>\<open>float(input(...).strip())\<close>: the float, or the error that \<^verbatim>\<open>float\<close> raised.
  The \<^verbatim>\<open>try\<close> block converts all three and then checks the ranges; a ValueError
  is caught, reported as invalid input, and \<^verbatim>\<open>main\<close> returns. The calculation runs
  outside the \<^verbatim>\<open>try\<close>, so an error raised there is not caught. Rendering the
  template from the dictionary is not modelled.
\<close>

datatype main_outcome = Invalid_input string | Report yantra_dimensions | Uncaught py_error

definition read_inputs ::
  "py_error + pyfloat \<Rightarrow> py_error + pyfloat \<Rightarrow> py_error + pyfloat
     \<Rightarrow> py_error + (pyfloat \<times> pyfloat \<times> pyfloat)" where
  "read_inputs latitude_in longitude_in base_radius_in =
     bind latitude_in (\<lambda>latitude.
     bind longitude_in (\<lambda>longitude.
     bind base_radius_in (\<lambda>base_radius.
       if \<not> (fle (Finite 0) latitude \<and> fle latitude (Finite 90))
         then Inl (ValueError ''Latitude must be between 0 and 90.'')
       else if \<not> (fle (Finite 0) longitude \<and> fle longitude (Finite 180))
         then Inl (ValueError ''Longitude must be between 0 and 180 (East).'')
       else if fle base_radius (Finite 0)
         then Inl (ValueError ''Radius must be positive.'')
       else Inr (latitude, longitude, base_radius))))"

definition main ::
  "libm \<Rightarrow> py_error + pyfloat \<Rightarrow> py_error + pyfloat \<Rightarrow> py_error + pyfloat \<Rightarrow> main_outcome" where
  "main lm latitude_in longitude_in base_radius_in =
     (case read_inputs latitude_in longitude_in base_radius_in of
        Inl (ValueError e) \<Rightarrow> Invalid_input e
      | Inl err \<Rightarrow> Uncaught err
      | Inr (latitude, longitude, base_radius) \<Rightarrow>
          (case calculate_yantra_dimensions lm latitude longitude base_radius of
             Inl err \<Rightarrow> Uncaught err
           | Inr data \<Rightarrow> Report data))"

section \<open>yantra\_web\_app.py\<close>

text \<open>
  \<^verbatim>\<open>deg_to_dms\<close>. \<^verbatim>\<open>sign\<close> is the constant 1. In \<^verbatim>\<open>deg - d\<close> and
  \<^verbatim>\<open>m_float - m\<close> the integer is converted to a float first.
\<close>

definition deg_to_dms :: "pyfloat option \<Rightarrow> py_error + string" where
  "deg_to_dms deg_arg =
     (case deg_arg of
        None \<Rightarrow> Inr ''N/A''
      | Some deg0 \<Rightarrow>
          (let sign = 1; deg = fabs deg0
           in bind (py_int deg) (\<lambda>d.
              bind (float_of_int d) (\<lambda>d_float.
              let m_float = fmul (fsub deg d_float) (Finite 60)
              in bind (py_int m_float) (\<lambda>m.
                 bind (float_of_int m) (\<lambda>m_flt.
                 let s = fmul (fsub m_float m_flt) (Finite 60)
                 in Inr (str_int (sign * d) @ degree_sign @ '' '' @ str_int m
                           @ [CHR 0x27, CHR '' ''] @ format_f 2 s @ [CHR 0x22])))))))"

definition get_scale_factor :: "pyfloat \<Rightarrow> string \<Rightarrow> py_error + (pyfloat \<times> string)" where
  "get_scale_factor radius_input unit_name =
     (if str_contains ''Angula'' unit_name then Inr (fmul radius_input (float_lit 0.02), ''m'')
      else bind (index0 (str_split unit_name)) (\<lambda>symbol. Inr (radius_input, symbol)))"

text \<open>The options of the unit selection box.\<close>

definition units :: "string list" where
  "units = [''meters'', ''feet'', ''centimeters'', ''Angula (approx. 2cm)'']"

text \<open>The dictionary that \<^verbatim>\<open>generate_yantra_data\<close> returns.\<close>

record yantra_data =
  lat_dms :: string
  lon_dms :: string
  R_input :: pyfloat
  unit :: string
  unit_symbol :: string
  colat_dms :: string
  pala_bha :: string
  time_corr_min :: string
  time_corr_desc :: string
  samrat_angle :: string
  samrat_r :: string
  samrat_base :: string
  samrat_height :: string
  samrat_declination_ex :: string
  bhitti_r :: string
  bhitti_pole_alt :: string
  bhitti_equator_zd :: string
  nadi_tilt :: string
  digamsa_diameter :: string
  digamsa_pillar :: string
  rama_h :: string
  rama_r :: string
  rama_45deg :: string
  epsilon :: string






section \<open>A reference input\<close>

text \<open>The radians of the latitude 26.9167, as \<^verbatim>\<open>math.radians\<close> computes them.\<close>

definition jaipur_rad :: real where
  "jaipur_rad = 8462894902223285 / 2 ^ 54"

text \<open>
  The result of the calculator at latitude 26.9167, longitude 75.8167 and radius 10.0.
\<close>

definition jaipur_dimensions :: yantra_dimensions where
  "jaipur_dimensions =
     \<lparr>phi = ''26.9167'' @ degree_sign @ '' N'',
      lmbda = ''75.8167'' @ degree_sign @ '' E'',
      R = ''10.000'',
      time_offset_str = ''00h 26m 43s BEHIND IST'',
      time_offset_min = Finite (- 7524726847401312 / 2 ^ 48),
      samrat_angle = ''26.917'' @ degree_sign,
      samrat_height = ''5.077'',
      nadivalaya_tilt = ''63.083'' @ degree_sign,
      bhitti_alignment = ''Must be aligned precisely North-South (Local Meridian)'',
      rasivalaya_zd_ss = ''39.643'' @ degree_sign,
      rasivalaya_zd_ws = ''86.523'' @ degree_sign,
      eot_chart = [(''Feb 11'', fneg (float_lit 14.2)), (''May 14'', float_lit 3.8),
                   (''Nov 03'', float_lit 16.4)]\<rparr>"

section \<open>Properties of rounding\<close>

lemma rhe_of_int [simp]: "rhe (of_int k) = k"
  by (simp add: rhe_def)

lemma rhe_error: "\<bar>of_int (rhe y) - y\<bar> \<le> 1 / 2"
  unfolding rhe_def Let_def by (auto; linarith)

lemma rhe_eqI:
  assumes "\<bar>y - of_int k\<bar> < 1 / 2"
  shows "rhe y = k"
proof -
  from assms rhe_error [of y] have "\<bar>real_of_int (rhe y) - of_int k\<bar> < 1" by linarith
  then have "\<bar>real_of_int (rhe y - k)\<bar> < 1" by simp
  then have "\<bar>rhe y - k\<bar> < 1" by linarith
  then show ?thesis by simp
qed

lemma rhe_nonneg: "0 \<le> y \<Longrightarrow> 0 \<le> rhe y"
  unfolding rhe_def Let_def by (auto simp: add_nonneg_nonneg)

lemma rhe_nonpos: "y \<le> 0 \<Longrightarrow> rhe y \<le> 0"
proof -
  assume "y \<le> 0"
  with rhe_error [of y] have "real_of_int (rhe y) < 1" by linarith
  then show ?thesis by linarith
qed

lemma expo_bounds: "- 1022 \<le> expo x" "expo x \<le> 1023"
proof -
  show "- 1022 \<le> expo x" by (simp add: expo_def)
  have "length (filter (\<lambda>e. 2 powi e \<le> \<bar>x\<bar>) [- 1021 .. 1023]) \<le> length [- 1021 .. 1023::int]"
    by (rule length_filter_le)
  then show "expo x \<le> 1023" by (simp add: expo_def)
qed


lemma upto_split_at:
  assumes "a \<le> e + 1" "e \<le> b"
  shows "[a..b] = [a..e] @ [e + 1..b::int]"
proof (cases "a \<le> e")
  case True
  then show ?thesis using upto_split2 [of a e b] assms by simp
next
  case False
  with assms have "a = e + 1" by simp
  then show ?thesis by simp
qed

lemma expo_eq:
  assumes lo: "e = - 1022 \<or> 2 powi e \<le> \<bar>x\<bar>" and hi: "e = 1023 \<or> \<bar>x\<bar> < 2 powi (e + 1)"
    and e: "- 1022 \<le> e" "e \<le> 1023"
  shows "expo x = e"
proof -
  let ?P = "\<lambda>i. (2::real) powi i \<le> \<bar>x\<bar>"
  have split: "[- 1021 .. 1023] = [- 1021 .. e] @ [e + 1 .. 1023::int]"
    using e by (intro upto_split_at) auto
  have low: "filter ?P [- 1021 .. e] = [- 1021 .. e]"
  proof (rule filter_True, clarsimp)
    fix i :: int assume i: "- 1021 \<le> i" "i \<le> e"
    then have "e \<noteq> - 1022" by auto
    with lo have "2 powi e \<le> \<bar>x\<bar>" by simp
    moreover have "(2::real) powi i \<le> 2 powi e" using i by (intro power_int_increasing) auto
    ultimately show "2 powi i \<le> \<bar>x\<bar>" by linarith
  qed
  have high: "filter ?P [e + 1 .. 1023] = []"
  proof (rule filter_False, clarsimp)
    fix i :: int assume i: "e + 1 \<le> i" "i \<le> 1023" and le: "2 powi i \<le> \<bar>x\<bar>"
    then have "e \<noteq> 1023" by auto
    with hi have "\<bar>x\<bar> < 2 powi (e + 1)" by simp
    moreover have "(2::real) powi (e + 1) \<le> 2 powi i" using i by (intro power_int_increasing) auto
    ultimately show False using le by linarith
  qed
  show ?thesis
    unfolding expo_def split filter_append low high using e by simp
qed


lemma expo_le:
  assumes "\<bar>x\<bar> < 2 powi (e + 1)" "- 1022 \<le> e"
  shows "expo x \<le> e"
proof (rule ccontr)
  assume "\<not> expo x \<le> e"
  then have gt: "e + 1 \<le> expo x" by simp
  let ?P = "\<lambda>i. (2::real) powi i \<le> \<bar>x\<bar>"
  have up: "expo x \<le> 1023" by (rule expo_bounds)
  have split: "[- 1021 .. 1023] = [- 1021 .. e] @ [e + 1 .. 1023::int]"
    using assms gt up by (intro upto_split_at) auto
  have high: "filter ?P [e + 1 .. 1023] = []"
  proof (rule filter_False, clarsimp)
    fix i :: int assume i: "e + 1 \<le> i" "i \<le> 1023" and le: "2 powi i \<le> \<bar>x\<bar>"
    have "(2::real) powi (e + 1) \<le> 2 powi i" using i by (intro power_int_increasing) auto
    then show False using le assms by linarith
  qed
  have "length (filter ?P [- 1021 .. e]) \<le> length [- 1021 .. e]"
    by (rule length_filter_le)
  then have "expo x \<le> e"
    unfolding expo_def split filter_append high using assms by simp
  with gt show False by simp
qed


lemma rnd_normal:
  assumes lo: "2 ^ 52 \<le> \<bar>x\<bar> * 2 ^ n" and hi: "\<bar>x\<bar> * 2 ^ n < 2 ^ 53" and n: "n \<le> 1074"
  shows "rnd x = Finite (of_int (rhe (x * 2 ^ n)) / 2 ^ n)"
proof -
  define e :: int where "e = 52 - int n"
  have q: "(2::real) powi (e - 52) = 1 / 2 ^ n"
    by (simp add: e_def power_int_minus field_simps)
  have pe: "(2::real) powi e = 2 ^ 52 / 2 ^ n"
    unfolding e_def by (subst power_int_diff) simp_all
  have pe1: "(2::real) powi (e + 1) = 2 ^ 53 / 2 ^ n"
  proof -
    have "e + 1 = 53 - int n" by (simp add: e_def)
    then show ?thesis by (simp only: power_int_diff) (subst power_int_diff, simp_all)
  qed
  have ex: "expo x = e"
  proof (rule expo_eq)
    show "e = - 1022 \<or> 2 powi e \<le> \<bar>x\<bar>" using lo by (simp add: pe field_simps)
    show "e = 1023 \<or> \<bar>x\<bar> < 2 powi (e + 1)" unfolding pe1 using hi by (simp add: field_simps)
    show "- 1022 \<le> e" "e \<le> 1023" using n by (simp_all add: e_def)
  qed
  let ?k = "rhe (x * 2 ^ n)"
  let ?y = "of_int ?k / (2::real) ^ n"
  have kerr: "\<bar>of_int ?k - x * 2 ^ n\<bar> \<le> 1 / 2" by (rule rhe_error)
  have "\<bar>x * 2 ^ n\<bar> = \<bar>x\<bar> * 2 ^ n" by (simp add: abs_mult)
  with kerr lo hi have kb: "2 ^ 52 - 1 / 2 \<le> \<bar>real_of_int ?k\<bar>" "\<bar>real_of_int ?k\<bar> \<le> 2 ^ 53 + 1 / 2"
    by linarith+
  have ynz: "?y \<noteq> 0" using kb by auto
  have "\<bar>?y\<bar> = \<bar>real_of_int ?k\<bar> / 2 ^ n" by (simp add: abs_divide)
  also have "\<dots> \<le> \<bar>real_of_int ?k\<bar>"
    using mult_left_mono [of 1 "(2::real) ^ n" "\<bar>real_of_int ?k\<bar>"] by (simp add: field_simps)
  also have "\<dots> < 2 ^ 1024" using kb by simp
  finally have fin: "\<not> 2 ^ 1024 \<le> \<bar>?y\<bar>" by simp
  show ?thesis
    unfolding rnd_def ex Let_def q using fin ynz by simp
qed

lemma rnd_eqI:
  assumes "2 ^ 52 \<le> \<bar>x\<bar> * 2 ^ n" "\<bar>x\<bar> * 2 ^ n < 2 ^ 53" "n \<le> 1074"
    and "\<bar>x * 2 ^ n - of_int k\<bar> < 1 / 2"
  shows "rnd x = Finite (of_int k / 2 ^ n)"
  using rnd_normal [OF assms(1-3)] rhe_eqI [OF assms(4)] by simp


lemma rhe_zero [simp]: "rhe 0 = 0"
  by (simp add: rhe_def)

lemma rnd_zero [simp]: "rnd 0 = Finite 0"
  by (simp add: rnd_def)

lemma rnd_int:
  assumes "\<bar>k\<bar> < 2 ^ 53"
  shows "rnd (of_int k) = Finite (of_int k)"
proof (cases "k = 0")
  case True
  then show ?thesis by simp
next
  case False
  then have "1 \<le> nat \<bar>k\<bar>" by simp
  from ex_power_ivl1 [OF _ this, of 2]
  obtain j where j: "2 ^ j \<le> nat \<bar>k\<bar>" "nat \<bar>k\<bar> < 2 ^ (j + 1)" by auto
  have jk: "(2::int) ^ j \<le> \<bar>k\<bar>" "\<bar>k\<bar> < 2 ^ (j + 1)"
    using j by (simp_all add: le_nat_iff nat_less_iff)
  have "(2::int) ^ j < 2 ^ 53" using jk assms by linarith
  from power_less_imp_less_exp [OF _ this] have j52: "j \<le> 52" by simp
  define n where "n = 52 - j"
  have nj: "n + j = 52" using j52 by (simp add: n_def)
  have p52: "(2::real) ^ 52 = 2 ^ j * 2 ^ n" using nj by (metis add.commute power_add)
  have p53: "(2::real) ^ 53 = 2 ^ (j + 1) * 2 ^ n"
    using nj by (metis add.commute add.assoc power_add numeral_plus_one semiring_norm(5) semiring_norm(8) Suc_eq_plus1 add_Suc_right numeral_Bit1 numeral_One)
  have rk: "(2::real) ^ j \<le> \<bar>of_int k\<bar>" "\<bar>real_of_int k\<bar> < 2 ^ (j + 1)"
    using jk by (metis of_int_abs of_int_le_iff of_int_numeral of_int_power, metis of_int_abs of_int_less_iff of_int_numeral of_int_power)
  have lo: "2 ^ 52 \<le> \<bar>real_of_int k\<bar> * 2 ^ n"
    unfolding p52 using rk(1) by (simp add: mult_right_mono)
  have hi: "\<bar>real_of_int k\<bar> * 2 ^ n < 2 ^ 53"
    unfolding p53 using rk(2) by (simp add: mult_strict_right_mono)
  have "real_of_int k * 2 ^ n = of_int (k * 2 ^ n)" by simp
  then have "rhe (real_of_int k * 2 ^ n) = k * 2 ^ n" by (simp only: rhe_of_int)
  with rnd_normal [OF lo hi] show ?thesis by (simp add: n_def)
qed

lemma rnd_error:
  assumes x: "\<bar>x\<bar> < 2 ^ n" and n: "n \<le> 1023"
  shows "is_finite (rnd x) \<and> \<bar>fval (rnd x) - x\<bar> \<le> 2 ^ n / 2 ^ 54 \<and> signbit (rnd x) = (x < 0)"
proof -
  have "expo x \<le> int n - 1"
    using x by (intro expo_le) simp_all
  then have "(2::real) powi (expo x - 52) \<le> 2 powi (int n - 53)"
    by (intro power_int_increasing) simp_all
  also have "\<dots> = 2 ^ n / 2 ^ 53"
    by (subst power_int_diff) simp_all
  finally have q: "(2::real) powi (expo x - 52) \<le> 2 ^ n / 2 ^ 53" .
  define q :: real where "q = 2 powi (expo x - 52)"
  have qpos: "0 < q" by (simp add: q_def)
  define y where "y = of_int (rhe (x / q)) * q"
  have "y - x = (of_int (rhe (x / q)) - x / q) * q"
    using qpos by (simp add: y_def field_simps)
  then have "\<bar>y - x\<bar> = \<bar>of_int (rhe (x / q)) - x / q\<bar> * q"
    using qpos by (simp add: abs_mult)
  also have "\<dots> \<le> 1 / 2 * q"
    using rhe_error [of "x / q"] qpos by (intro mult_right_mono) simp_all
  also have "\<dots> \<le> 2 ^ n / 2 ^ 54" using q by (simp add: q_def)
  finally have err: "\<bar>y - x\<bar> \<le> 2 ^ n / 2 ^ 54" .
  have "(2::real) ^ n / 2 ^ 54 \<le> 2 ^ n" by (simp add: field_simps)
  with err x have "\<bar>y\<bar> < 2 * 2 ^ n" by linarith
  also have "\<dots> \<le> 2 * (2::real) ^ 1023"
  proof -
    have "(2::real) ^ n \<le> 2 ^ 1023" using n by (intro power_increasing) simp_all
    then show ?thesis by linarith
  qed
  finally have fin: "\<not> 2 ^ 1024 \<le> \<bar>y\<bar>" by simp
  have sgn: "x < 0 \<Longrightarrow> y \<le> 0" "0 \<le> x \<Longrightarrow> 0 \<le> y"
  proof -
    assume "x < 0"
    then have "- (x / q) \<ge> 0" using qpos by (simp add: divide_nonpos_pos)
    then have "rhe (x / q) \<le> 0" by (intro rhe_nonpos) simp
    then show "y \<le> 0" using qpos by (simp add: y_def mult_nonpos_nonneg)
  next
    assume "0 \<le> x"
    then have "0 \<le> rhe (x / q)" using qpos by (intro rhe_nonneg) simp
    then show "0 \<le> y" using qpos by (simp add: y_def)
  qed
  have r: "rnd x = (if y = 0 \<and> x < 0 then NegZero else Finite y)"
    unfolding rnd_def Let_def q_def [symmetric] y_def [symmetric] using fin by simp
  show ?thesis
  proof (cases "x < 0")
    case True
    with sgn(1) err show ?thesis by (cases "y = 0") (auto simp: r)
  next
    case False
    then have "0 \<le> x" by simp
    with sgn(2) err False show ?thesis by (simp add: r)
  qed
qed

lemma rnd_nonneg:
  assumes "0 \<le> x" "x < 2 ^ n" "n \<le> 1023"
  shows "\<exists>y. rnd x = Finite y \<and> 0 \<le> y \<and> \<bar>y - x\<bar> \<le> 2 ^ n / 2 ^ 54"
proof -
  from assms have "\<bar>x\<bar> < 2 ^ n" by simp
  from rnd_error [OF this assms(3)] assms(1) show ?thesis
    by (cases "rnd x") auto
qed


section \<open>Float operations on finite values\<close>

lemma fadd_Finite [simp]: "fadd (Finite a) (Finite b) = rnd (a + b)"
  by simp

lemma fsub_Finite [simp]: "fsub (Finite a) (Finite b) = rnd (a - b)"
  by (simp add: fsub_def)

lemma fmul_Finite:
  "fmul (Finite a) (Finite b) = (if a * b = 0 then signed_zero ((a < 0) \<noteq> (b < 0)) else rnd (a * b))"
  by (simp add: fmul_def)

lemma float_lit_half [simp]: "float_lit (1 / 2) = Finite (1 / 2)"
proof -
  have "rnd (1 / 2) = Finite (of_int (2 ^ 52) / 2 ^ 53)"
    by (rule rnd_eqI) simp_all
  then show ?thesis by (simp add: float_lit_def)
qed

lemma trunc_nonneg [simp]: "0 \<le> t \<Longrightarrow> trunc t = \<lfloor>t\<rfloor>"
  by (simp add: trunc_def)

lemma c_fmod_pos:
  assumes "0 \<le> s" "0 < w"
  shows "c_fmod (Finite s) (Finite w) = Finite (s - of_int \<lfloor>s / w\<rfloor> * w)"
  using assms by (simp add: c_fmod_def Let_def signed_zero_def)

lemma floor_rem_bounds:
  assumes "0 < (w::real)"
  shows "0 \<le> s - of_int \<lfloor>s / w\<rfloor> * w" "s - of_int \<lfloor>s / w\<rfloor> * w < w"
proof -
  have "of_int \<lfloor>s / w\<rfloor> \<le> s / w" by simp
  then have "of_int \<lfloor>s / w\<rfloor> * w \<le> (s / w) * w" using assms by (intro mult_right_mono) simp_all
  then have "of_int \<lfloor>s / w\<rfloor> * w \<le> s" using assms by simp
  then show "0 \<le> s - of_int \<lfloor>s / w\<rfloor> * w" by simp
  have "s / w < of_int \<lfloor>s / w\<rfloor> + 1" by linarith
  then have "(s / w) * w < (of_int \<lfloor>s / w\<rfloor> + 1) * w" using assms by (intro mult_strict_right_mono) simp_all
  then have "s < (of_int \<lfloor>s / w\<rfloor> + 1) * w" using assms by simp
  then show "s - of_int \<lfloor>s / w\<rfloor> * w < w" by (simp add: algebra_simps)
qed

lemma float_rem_pos:
  assumes "0 \<le> s" "0 < w"
  shows "float_rem (Finite s) (Finite w) = Inr (Finite (s - of_int \<lfloor>s / w\<rfloor> * w))"
  using assms floor_rem_bounds [OF assms(2), of s]
  by (auto simp: float_rem_def c_fmod_pos Let_def nonzero_def signed_zero_def)

lemma float_floor_div_pos:
  assumes s: "0 \<le> s" and W: "0 < W" and b: "s < 2 ^ 52" 
  shows "float_floor_div (Finite s) (Finite (of_int W)) = Inr (Finite (of_int \<lfloor>s / of_int W\<rfloor>))"
proof -
  define w :: real where "w = of_int W"
  define n where "n = \<lfloor>s / w\<rfloor>"
  have w: "0 < w" "1 \<le> w" using W by (simp_all add: w_def)
  have n0: "0 \<le> n" using s w by (simp add: n_def)
  have rb: "0 \<le> s - of_int n * w" "s - of_int n * w < w"
    unfolding n_def by (rule floor_rem_bounds [OF w(1)])+
  have "of_int n * w \<le> s" using rb by simp
  then have nW: "real_of_int (n * W) < 2 ^ 52" using b by (simp add: w_def)
  then have "n * W < 2 ^ 52" by (simp only: of_int_less_numeral_power_cancel_iff)
  then have nWb: "\<bar>n * W\<bar> < 2 ^ 53" using n0 W by simp
  have "real_of_int n \<le> of_int n * w" using n0 w by (simp add: mult_le_cancel_left1)
  then have "real_of_int n < 2 ^ 52" using nW by (simp add: w_def)
  then have "n < 2 ^ 52" by (simp only: of_int_less_numeral_power_cancel_iff)
  then have nb: "\<bar>n\<bar> < 2 ^ 53" using n0 by simp
  have m: "c_fmod (Finite s) (Finite w) = Finite (s - of_int n * w)"
    unfolding n_def by (rule c_fmod_pos [OF s w(1)])
  have sub: "fsub (Finite s) (Finite (s - of_int n * w)) = Finite (of_int (n * W))"
    using rnd_int [OF nWb] by (simp add: w_def)
  have d0: "ieee_div (Finite (of_int (n * W))) (Finite w) = Finite (of_int n)"
  proof (cases "n = 0")
    case True
    then show ?thesis using w by (simp add: ieee_div_def signed_zero_def)
  next
    case False
    then have "real_of_int (n * W) / w = of_int n" using w by (simp add: w_def)
    then show ?thesis using False w W rnd_int [OF nb] by (simp add: ieee_div_def)
  qed
  have noadj: "(flt (Finite w) (Finite 0) \<noteq> flt (Finite (s - of_int n * w)) (Finite 0)) = False"
    using rb w by simp
  have wz: "(is_finite (Finite w) \<and> fval (Finite w) = 0) = False" using w by simp
  have res: "float_floor_div (Finite s) (Finite w) =
      (if nonzero (Finite (of_int n)) then
         (let fl = c_floor (Finite (of_int n))
          in if fgt (fsub (Finite (of_int n)) fl) (float_lit 0.5) then Inr (fadd fl (Finite 1)) else Inr fl)
       else Inr (signed_zero (signbit (ieee_div (Finite s) (Finite w)))))"
    unfolding float_floor_div_def wz m Let_def sub d0 noadj by (simp only: if_False simp_thms)
  show ?thesis
  proof (cases "n = 0")
    case False
    then show ?thesis
      unfolding w_def [symmetric] n_def [symmetric] res
      by (simp add: nonzero_def fgt_def Let_def)
  next
    case True
    then have "s / w < 1" unfolding n_def by linarith
    moreover have "0 \<le> s / w" using s w by simp
    ultimately have "\<bar>s / w\<bar> < 2 ^ 0" by simp
    from rnd_error [OF this] have "\<not> signbit (rnd (s / w))" using \<open>0 \<le> s / w\<close> by simp
    then have "\<not> signbit (ieee_div (Finite s) (Finite w))"
      using s w by (simp add: ieee_div_def signed_zero_def)
    then show ?thesis
      unfolding w_def [symmetric] n_def [symmetric] res using True
      by (simp add: nonzero_def signed_zero_def)
  qed
qed

lemma bind_Inr [simp]: "bind (Inr v) f = f v"
  by (simp add: bind_def)

lemma bind_Inl [simp]: "bind (Inl e) f = Inl e"
  by (simp add: bind_def)

lemma trunc_of_int [simp]: "trunc (of_int n) = n"
  by (simp add: trunc_def)

lemma floor_sub_int_mult:
  assumes "w = of_int W"
  shows "\<lfloor>s - of_int k * w\<rfloor> = \<lfloor>s\<rfloor> - k * W"
proof -
  have "s - of_int k * w = s - of_int (k * W)" using assms by simp
  then show ?thesis by (simp only: floor_diff_of_int)
qed

lemma hms_decompose:
  assumes s: "0 \<le> s" "s < 2 ^ 52"
  shows "bind (float_floor_div (Finite s) (Finite 3600)) py_int = Inr (\<lfloor>s\<rfloor> div 3600)"
    and "bind (bind (float_rem (Finite s) (Finite 3600)) (\<lambda>r. float_floor_div r (Finite 60))) py_int
           = Inr (\<lfloor>s\<rfloor> mod 3600 div 60)"
    and "bind (float_rem (Finite s) (Finite 60)) py_int = Inr (\<lfloor>s\<rfloor> mod 60)"
proof -
  have f1: "float_floor_div (Finite s) (Finite (of_int 3600)) = Inr (Finite (of_int \<lfloor>s / of_int 3600\<rfloor>))"
    by (rule float_floor_div_pos [OF s(1) _ s(2)]) simp
  have d1: "\<lfloor>s / 3600\<rfloor> = \<lfloor>s\<rfloor> div 3600"
    using floor_divide_real_eq_div [of 3600 s] by simp
  show "bind (float_floor_div (Finite s) (Finite 3600)) py_int = Inr (\<lfloor>s\<rfloor> div 3600)"
    using f1 by (simp add: d1)
  define r where "r = s - of_int \<lfloor>s / 3600\<rfloor> * 3600"
  have rb: "0 \<le> r" "r < 3600"
    unfolding r_def using floor_rem_bounds [of 3600 s] by simp_all
  have r1: "float_rem (Finite s) (Finite 3600) = Inr (Finite r)"
    unfolding r_def by (rule float_rem_pos [OF s(1)]) simp
  have "r < 2 ^ 52" using rb by simp
  from float_floor_div_pos [OF rb(1) _ this, of 60]
  have f2: "float_floor_div (Finite r) (Finite 60) = Inr (Finite (of_int \<lfloor>r / 60\<rfloor>))" by simp
  have "\<lfloor>r\<rfloor> = \<lfloor>s\<rfloor> - (\<lfloor>s\<rfloor> div 3600) * 3600"
    unfolding r_def d1 by (rule floor_sub_int_mult) simp
  then have fr: "\<lfloor>r\<rfloor> = \<lfloor>s\<rfloor> mod 3600" by (simp add: minus_div_mult_eq_mod)
  have d2: "\<lfloor>r / 60\<rfloor> = \<lfloor>s\<rfloor> mod 3600 div 60"
    using floor_divide_real_eq_div [of 60 r] fr by simp
  show "bind (bind (float_rem (Finite s) (Finite 3600)) (\<lambda>r. float_floor_div r (Finite 60))) py_int
           = Inr (\<lfloor>s\<rfloor> mod 3600 div 60)"
    by (simp add: r1 f2 d2)
  define t where "t = s - of_int \<lfloor>s / 60\<rfloor> * 60"
  have tb: "0 \<le> t" unfolding t_def using floor_rem_bounds [of 60 s] by simp
  have r3: "float_rem (Finite s) (Finite 60) = Inr (Finite t)"
    unfolding t_def by (rule float_rem_pos [OF s(1)]) simp
  have d3: "\<lfloor>s / 60\<rfloor> = \<lfloor>s\<rfloor> div 60"
    using floor_divide_real_eq_div [of 60 s] by simp
  have "\<lfloor>t\<rfloor> = \<lfloor>s\<rfloor> - (\<lfloor>s\<rfloor> div 60) * 60"
    unfolding t_def d3 by (rule floor_sub_int_mult) simp
  then have ft: "\<lfloor>t\<rfloor> = \<lfloor>s\<rfloor> mod 60" by (simp add: minus_div_mult_eq_mod)
  show "bind (float_rem (Finite s) (Finite 60)) py_int = Inr (\<lfloor>s\<rfloor> mod 60)"
    using tb by (simp add: r3 ft)
qed

lemma calculate_time_offset_seconds:
  assumes "fmul (fabs (fmul (fsub lam IST_REFERENCE_LONGITUDE) (Finite 4))) (Finite 60) = Finite s"
    and "0 \<le> s" "s < 2 ^ 52"
  shows "calculate_time_offset lam =
     Inr (format_02d (\<lfloor>s\<rfloor> div 3600) @ ''h '' @ format_02d (\<lfloor>s\<rfloor> mod 3600 div 60) @ ''m ''
            @ format_02d (\<lfloor>s\<rfloor> mod 60) @ ''s ''
            @ (if fgt (fmul (fsub lam IST_REFERENCE_LONGITUDE) (Finite 4)) (Finite 0)
               then ''AHEAD OF'' else ''BEHIND'') @ '' IST'',
          fmul (fsub lam IST_REFERENCE_LONGITUDE) (Finite 4))"
  unfolding calculate_time_offset_def Let_def assms(1) hms_decompose [OF assms(2,3)]
  by simp

lemma fle_range:
  assumes "fle (Finite a) x" "fle x (Finite b)"
  shows "is_finite x \<and> a \<le> fval x \<and> fval x \<le> b"
  using assms by (cases x) simp_all

lemma IST_REFERENCE_LONGITUDE_eq: "IST_REFERENCE_LONGITUDE = Finite 82.5"
proof -
  have "rnd 82.5 = Finite (of_int (165 * 2 ^ 45) / 2 ^ 46)"
    by (rule rnd_eqI) simp_all
  then show ?thesis by (simp add: IST_REFERENCE_LONGITUDE_def float_lit_def)
qed

lemma fsub_finite:
  assumes "is_finite x" "b \<noteq> 0"
  shows "fsub x (Finite b) = rnd (fval x - b)"
  using assms by (cases x) (simp_all add: fsub_def)

lemma fmul_finite:
  assumes "is_finite x" "is_finite y" "\<bar>fval x * fval y\<bar> < 2 ^ n" "n \<le> 1023"
  shows "is_finite (fmul x y) \<and> \<bar>fval (fmul x y) - fval x * fval y\<bar> \<le> 2 ^ n / 2 ^ 54"
proof (cases "fval x * fval y = 0")
  case True
  have ni: "\<not> is_nan x" "\<not> is_nan y" "\<not> is_inf x" "\<not> is_inf y"
    using assms(1,2) by (cases x; cases y; simp)+
  have "fval (fmul x y) = 0" "is_finite (fmul x y)"
    using True ni by (simp_all add: fmul_def signed_zero_def)
  moreover have "0 \<le> (2::real) ^ n / 2 ^ 54" by simp
  ultimately show ?thesis using True by auto
next
  case False
  have ni: "\<not> is_nan x" "\<not> is_nan y" "\<not> is_inf x" "\<not> is_inf y"
    using assms(1,2) by (cases x; cases y; simp)+
  have "fmul x y = rnd (fval x * fval y)" using False ni by (simp add: fmul_def)
  with rnd_error [OF assms(3,4)] show ?thesis by simp
qed

lemma fabs_finite: "is_finite x \<Longrightarrow> fabs x = Finite \<bar>fval x\<bar>"
  by (cases x) simp_all

lemma fmul_nonneg:
  assumes "0 \<le> a" "0 \<le> b" "a * b < 2 ^ n" "n \<le> 1023"
  shows "\<exists>y. fmul (Finite a) (Finite b) = Finite y \<and> 0 \<le> y \<and> \<bar>y - a * b\<bar> \<le> 2 ^ n / 2 ^ 54"
proof (cases "a * b = 0")
  case True
  then show ?thesis using assms by (auto simp: fmul_Finite signed_zero_def)
next
  case False
  have "0 \<le> a * b" using assms by simp
  from rnd_nonneg [OF this assms(3,4)] False show ?thesis by (simp add: fmul_Finite)
qed

lemma time_offset_seconds_bounded:
  assumes lam: "is_finite lam" "- 180 \<le> fval lam" "fval lam \<le> 180"
  shows "\<exists>s. fmul (fabs (fmul (fsub lam IST_REFERENCE_LONGITUDE) (Finite 4))) (Finite 60) = Finite s
             \<and> 0 \<le> s \<and> s < 2 ^ 52
             \<and> is_finite (fmul (fsub lam IST_REFERENCE_LONGITUDE) (Finite 4))"
proof -
  define D where "D = fsub lam IST_REFERENCE_LONGITUDE"
  have D: "D = rnd (fval lam - 82.5)"
    unfolding D_def IST_REFERENCE_LONGITUDE_eq using lam(1) by (intro fsub_finite) simp_all
  have "\<bar>fval lam - 82.5\<bar> < 2 ^ 9" using lam by simp
  from rnd_error [OF this] have Df: "is_finite D" and De: "\<bar>fval D - (fval lam - 82.5)\<bar> \<le> 2 ^ 9 / 2 ^ 54"
    unfolding D by simp_all
  from De have "\<bar>fval D - (fval lam - 82.5)\<bar> \<le> 1 / 2" by (rule order_trans) simp
  then have Db: "\<bar>fval D\<bar> \<le> 263" using lam by linarith
  define M where "M = fmul D (Finite 4)"
  have "\<bar>fval D * fval (Finite 4)\<bar> < 2 ^ 11" using Db by simp
  from fmul_finite [OF Df _ this]
  have Mf: "is_finite M" and Me: "\<bar>fval M - fval D * 4\<bar> \<le> 2 ^ 11 / 2 ^ 54" by (simp_all add: M_def)
  from Me have "\<bar>fval M - fval D * 4\<bar> \<le> 1 / 2" by (rule order_trans) simp
  then have Mb: "\<bar>fval M\<bar> \<le> 1053" using Db by linarith
  have "\<bar>fval M\<bar> * 60 < 2 ^ 16" using Mb by simp
  from fmul_nonneg [OF _ _ this]
  obtain s where s: "fmul (Finite \<bar>fval M\<bar>) (Finite 60) = Finite s" "0 \<le> s"
      "\<bar>s - \<bar>fval M\<bar> * 60\<bar> \<le> 2 ^ 16 / 2 ^ 54" by auto
  from s(3) have "\<bar>s - \<bar>fval M\<bar> * 60\<bar> \<le> 1 / 2" by (rule order_trans) simp
  then have "s < 63181" using Mb by linarith
  then have "s < 2 ^ 52" by simp
  with s Mf show ?thesis
    unfolding D_def [symmetric] M_def [symmetric] by (simp add: fabs_finite)
qed


lemma calculate_time_offset_returns:
  assumes "is_finite lam" "- 180 \<le> fval lam" "fval lam \<le> 180"
  shows "\<exists>str. calculate_time_offset lam =
           Inr (str, fmul (fsub lam IST_REFERENCE_LONGITUDE) (Finite 4))"
proof -
  from time_offset_seconds_bounded [OF assms]
  obtain s where "fmul (fabs (fmul (fsub lam IST_REFERENCE_LONGITUDE) (Finite 4))) (Finite 60) = Finite s"
     "0 \<le> s" "s < 2 ^ 52"
    by blast
  from calculate_time_offset_seconds [OF this] show ?thesis by blast
qed

section \<open>Evaluation helpers\<close>

declare str_nat.simps [simp del]

lemma rnd_numeral [simp]: "numeral k < (2::int) ^ 53 \<Longrightarrow> rnd (numeral k) = Finite (numeral k)"
  using rnd_int [of "numeral k"] by simp

lemma rnd_neg_numeral [simp]:
  "numeral k < (2::int) ^ 53 \<Longrightarrow> rnd (- numeral k) = Finite (- numeral k)"
  using rnd_int [of "- numeral k"] by simp

lemma rnd_one [simp]: "rnd 1 = Finite 1"
  using rnd_int [of 1] by simp

lemma fgt_zero_finite: "is_finite x \<Longrightarrow> fgt x (Finite 0) = (0 < fval x)"
  by (cases x) (simp_all add: fgt_def)

lemma Py_MATH_PI_eq: "Py_MATH_PI = Finite (7074237752028440 / 2 ^ 51)"
proof -
  have "rnd 3.14159265358979323846 = Finite (of_int 7074237752028440 / 2 ^ 51)"
    by (rule rnd_eqI) simp_all
  then show ?thesis by (simp add: Py_MATH_PI_def float_lit_def)
qed

lemma degToRad_eq: "degToRad = Finite (5030569068109113 / 2 ^ 58)"
proof -
  have "rnd (7074237752028440 / 2 ^ 51 / 180) = Finite (of_int 5030569068109113 / 2 ^ 58)"
    by (rule rnd_eqI) simp_all
  then show ?thesis
    by (simp add: degToRad_def Py_MATH_PI_eq float_lit_def ieee_div_def)
qed

lemma math_1_finite: "is_finite (func x) \<Longrightarrow> math_1 func x = Inr (func x)"
  by (cases "func x") (simp_all add: math_1_def Let_def)

lemma float_lit_numeral [simp]:
  "numeral k < (2::int) ^ 53 \<Longrightarrow> float_lit (numeral k) = Finite (numeral k)"
  by (simp add: float_lit_def)

lemma rhe_numeral [simp]: "rhe (numeral k) = numeral k"
  using rhe_of_int [of "numeral k"] by simp

lemma replicate_numeral: "replicate (numeral k) x = x # replicate (pred_numeral k) x"
  by (simp add: numeral_eq_Suc)

lemmas format_eval = scaled_def fixed_digits_def zfill_def str_nat.simps digit_char_def
  replicate_numeral format_02d_def str_int_def

lemma float_lit_0_02: "float_lit (1 / 50) = Finite (5764607523034235 / 2 ^ 58)"
proof -
  have "rnd (1 / 50) = Finite (of_int 5764607523034235 / 2 ^ 58)"
    by (rule rnd_eqI) simp_all
  then show ?thesis by (simp add: float_lit_def)
qed

lemma angula_500: "fmul (Finite 500) (float_lit 0.02) = Finite 10"
proof -
  have "rnd (500 * (5764607523034235 / 2 ^ 58)) = Finite (of_int 5629499534213120 / 2 ^ 49)"
    by (rule rnd_eqI) simp_all
  then show ?thesis by (simp add: float_lit_0_02 fmul_Finite)
qed

lemma fabs_idem [simp]: "fabs (fabs x) = fabs x"
  by (cases x) simp_all

lemma float_of_int_small: "\<bar>n\<bar> < 2 ^ 53 \<Longrightarrow> float_of_int n = Inr (Finite (of_int n))"
  by (simp add: float_of_int_def rnd_int)

lemma deg_to_dms_finite:
  assumes "is_finite x" "\<bar>fval x\<bar> < 2 ^ 52"
  shows "deg_to_dms (Some x) =
     (let d = \<lfloor>\<bar>fval x\<bar>\<rfloor>;
          m_float = fmul (fsub (Finite \<bar>fval x\<bar>) (Finite (of_int d))) (Finite 60);
          m = \<lfloor>fval m_float\<rfloor>;
          s = fmul (fsub m_float (Finite (of_int m))) (Finite 60)
      in Inr (str_int d @ degree_sign @ '' '' @ str_int m @ [CHR 0x27, CHR '' '']
                @ format_f 2 s @ [CHR 0x22]))"
proof -
  define a where "a = \<bar>fval x\<bar>"
  define d where "d = \<lfloor>a\<rfloor>"
  have a: "0 \<le> a" "a < 2 ^ 52" using assms by (simp_all add: a_def)
  have d0: "0 \<le> d" using a by (simp add: d_def)
  have "real_of_int d \<le> a" by (simp add: d_def)
  then have "real_of_int d < 2 ^ 52" using a by linarith
  then have "d < 2 ^ 52" by (simp only: of_int_less_numeral_power_cancel_iff)
  then have dI: "float_of_int d = Inr (Finite (of_int d))" using d0 by (intro float_of_int_small) simp
  have fr: "0 \<le> a - of_int d" "a - of_int d < 2 ^ 0" unfolding d_def by (simp, simp, linarith)
  from rnd_nonneg [OF fr]
  obtain f where f: "rnd (a - of_int d) = Finite f" "0 \<le> f" "\<bar>f - (a - of_int d)\<bar> \<le> 2 ^ 0 / 2 ^ 54"
    by auto
  from f(3) have "\<bar>f - (a - of_int d)\<bar> \<le> 1" by (rule order_trans) simp
  then have fb: "f \<le> 2" using fr by simp
  then have "f * 60 < 2 ^ 7" by simp
  from fmul_nonneg [OF f(2) _ this]
  obtain mf where mf: "fmul (Finite f) (Finite 60) = Finite mf" "0 \<le> mf"
      "\<bar>mf - f * 60\<bar> \<le> 2 ^ 7 / 2 ^ 54" by auto
  from mf(3) have "\<bar>mf - f * 60\<bar> \<le> 1" by (rule order_trans) simp
  then have mfb: "mf \<le> 121" using fb by linarith
  define m where "m = \<lfloor>mf\<rfloor>"
  have m0: "0 \<le> m" using mf(2) by (simp add: m_def)
  have "real_of_int m \<le> mf" by (simp add: m_def)
  then have "real_of_int m < 122" using mfb by linarith
  then have "m < 122" by linarith
  then have mI: "float_of_int m = Inr (Finite (of_int m))" using m0 by (intro float_of_int_small) simp
  have ab: "fabs x = Finite a" using assms(1) by (simp add: fabs_finite a_def)
  show ?thesis
    unfolding a_def [symmetric] d_def [symmetric]
    using a(1) mf(2)
    by (simp add: deg_to_dms_def ab Let_def d_def [symmetric] dI f(1) mf(1) m_def [symmetric] mI)
qed

lemma sin_poly_bound:
  fixes x :: real
  shows "\<bar>sin x - (x - x ^ 3 / 6 + x ^ 5 / 120)\<bar> \<le> \<bar>x\<bar> ^ 7 / 5040"
proof -
  have "(\<Sum>m<7. sin_coeff m * x ^ m) = x - x ^ 3 / 6 + x ^ 5 / 120"
    by (simp add: sin_coeff_def lessThan_nat_numeral fact_numeral)
  moreover have "fact 7 = (5040::real)" by (simp add: fact_numeral)
  ultimately have "\<bar>sin x - (x - x ^ 3 / 6 + x ^ 5 / 120)\<bar> \<le> inverse 5040 * \<bar>x\<bar> ^ 7"
    using Maclaurin_sin_bound [of x 7] by (simp only:)
  then show ?thesis by (simp only: divide_inverse mult.commute)
qed

lemma cos_poly_bound:
  fixes x :: real
  assumes "0 < x"
  shows "\<bar>cos x - (1 - x ^ 2 / 2 + x ^ 4 / 24 - x ^ 6 / 720)\<bar> \<le> x ^ 8 / 40320"
proof -
  from Maclaurin_cos_expansion2 [OF assms, of 8]
  obtain t where t: "cos x = (\<Sum>m<8. cos_coeff m * x ^ m) + cos (t + 1 / 2 * real 8 * pi) / fact 8 * x ^ 8"
    by auto
  have s: "(\<Sum>m<8. cos_coeff m * x ^ m) = 1 - x ^ 2 / 2 + x ^ 4 / 24 - x ^ 6 / 720"
    by (simp add: cos_coeff_def lessThan_nat_numeral fact_numeral)
  have f: "fact 8 = (40320::real)" by (simp add: fact_numeral)
  have "\<bar>cos (t + 1 / 2 * real 8 * pi) / fact 8 * x ^ 8\<bar> \<le> 1 / 40320 * x ^ 8"
    unfolding f abs_mult abs_divide using assms
    by (intro mult_mono divide_right_mono) (simp_all add: abs_cos_le_one)
  with t s show ?thesis by simp
qed


lemma sin_poly_lower:
  fixes a :: real
  assumes "0 < a"
  shows "a - a ^ 3 / 6 + a ^ 5 / 120 - a ^ 7 / 5040 \<le> sin a"
    and "sin a \<le> a - a ^ 3 / 6 + a ^ 5 / 120 + a ^ 7 / 5040"
proof -
  have "\<bar>a\<bar> = a" using assms by simp
  with sin_poly_bound [of a] have "\<bar>sin a - (a - a ^ 3 / 6 + a ^ 5 / 120)\<bar> \<le> a ^ 7 / 5040"
    by (simp only:)
  then show "a - a ^ 3 / 6 + a ^ 5 / 120 - a ^ 7 / 5040 \<le> sin a"
    and "sin a \<le> a - a ^ 3 / 6 + a ^ 5 / 120 + a ^ 7 / 5040"
    by linarith+
qed

lemma cos_poly_lower:
  fixes a :: real
  assumes "0 < a"
  shows "1 - a ^ 2 / 2 + a ^ 4 / 24 - a ^ 6 / 720 - a ^ 8 / 40320 \<le> cos a"
    and "cos a \<le> 1 - a ^ 2 / 2 + a ^ 4 / 24 - a ^ 6 / 720 + a ^ 8 / 40320"
  using cos_poly_bound [OF assms] by linarith+

lemma trig_interval:
  fixes x :: real
  assumes "0 < a" "a \<le> x" "x \<le> b" "b \<le> 1"
  shows "a - a ^ 3 / 6 + a ^ 5 / 120 - a ^ 7 / 5040 \<le> sin x"
    and "sin x \<le> b - b ^ 3 / 6 + b ^ 5 / 120 + b ^ 7 / 5040"
    and "1 - b ^ 2 / 2 + b ^ 4 / 24 - b ^ 6 / 720 - b ^ 8 / 40320 \<le> cos x"
    and "cos x \<le> 1 - a ^ 2 / 2 + a ^ 4 / 24 - a ^ 6 / 720 + a ^ 8 / 40320"
proof -
  have pi: "1 \<le> pi / 2" using pi_ge_two by simp
  have b0: "0 < b" using assms by linarith
  have "sin a \<le> sin x" using assms pi by (intro sin_monotone_2pi_le) linarith+
  with sin_poly_lower(1) [OF assms(1)]
  show "a - a ^ 3 / 6 + a ^ 5 / 120 - a ^ 7 / 5040 \<le> sin x" by linarith
  have "sin x \<le> sin b" using assms pi by (intro sin_monotone_2pi_le) linarith+
  with sin_poly_lower(2) [OF b0]
  show "sin x \<le> b - b ^ 3 / 6 + b ^ 5 / 120 + b ^ 7 / 5040" by linarith
  have "cos b \<le> cos x" using assms pi by (intro cos_monotone_0_pi_le) linarith+
  with cos_poly_lower(1) [OF b0]
  show "1 - b ^ 2 / 2 + b ^ 4 / 24 - b ^ 6 / 720 - b ^ 8 / 40320 \<le> cos x" by linarith
  have "cos x \<le> cos a" using assms pi by (intro cos_monotone_0_pi_le) linarith+
  with cos_poly_lower(2) [OF assms(1)]
  show "cos x \<le> 1 - a ^ 2 / 2 + a ^ 4 / 24 - a ^ 6 / 720 + a ^ 8 / 40320" by linarith
qed

lemma jaipur_trig:
  "0.4526 < sin jaipur_rad" "sin jaipur_rad < 0.4528"
  "0.8916 < cos jaipur_rad" "cos jaipur_rad < 0.8917"
  "0.50766 < tan jaipur_rad" "tan jaipur_rad < 0.50774"
proof -
  have ab: "(0::real) < 0.469785" "0.469785 \<le> jaipur_rad" "jaipur_rad \<le> 0.469786" "(0.469786::real) \<le> 1"
    by (simp_all add: jaipur_rad_def)
  note t = trig_interval [OF ab]
  have s1: "(0.452694::real) \<le> 0.469785 - 0.469785 ^ 3 / 6 + 0.469785 ^ 5 / 120 - 0.469785 ^ 7 / 5040"
    by (simp add: power_divide)
  have s2: "0.469786 - 0.469786 ^ 3 / 6 + 0.469786 ^ 5 / 120 + 0.469786 ^ 7 / 5040 \<le> (0.452698::real)"
    by (simp add: power_divide)
  have c1: "(0.891664::real) \<le> 1 - 0.469786 ^ 2 / 2 + 0.469786 ^ 4 / 24 - 0.469786 ^ 6 / 720 - 0.469786 ^ 8 / 40320"
    by (simp add: power_divide)
  have c2: "1 - 0.469785 ^ 2 / 2 + 0.469785 ^ 4 / 24 - 0.469785 ^ 6 / 720 + 0.469785 ^ 8 / 40320 \<le> (0.891667::real)"
    by (simp add: power_divide)
  have s: "0.452694 \<le> sin jaipur_rad" "sin jaipur_rad \<le> 0.452698"
    using t(1,2) s1 s2 by linarith+
  have c: "0.891664 \<le> cos jaipur_rad" "cos jaipur_rad \<le> 0.891667"
    using t(3,4) c1 c2 by linarith+
  show "0.4526 < sin jaipur_rad" "sin jaipur_rad < 0.4528"
    "0.8916 < cos jaipur_rad" "cos jaipur_rad < 0.8917"
    using s c by simp_all
  have cpos: "0 < cos jaipur_rad" using c by simp
  have "0.50766 * cos jaipur_rad < sin jaipur_rad" using s c by simp
  then show "0.50766 < tan jaipur_rad"
    using cpos by (simp add: tan_def pos_less_divide_eq)
  have "sin jaipur_rad < 0.50774 * cos jaipur_rad" using s c by simp
  then show "tan jaipur_rad < 0.50774"
    using cpos by (simp add: tan_def pos_divide_less_eq)
qed


lemma rhe_tie_even:
  assumes "y = of_int k + 1 / 2" "even k"
  shows "rhe y = k"
proof -
  have "\<lfloor>y\<rfloor> = k" unfolding assms(1) by linarith
  then show ?thesis using assms by (simp add: rhe_def)
qed

lemma rnd_eqI_tie:
  assumes "2 ^ 52 \<le> \<bar>x\<bar> * 2 ^ n" "\<bar>x\<bar> * 2 ^ n < 2 ^ 53" "n \<le> 1074"
    and "x * 2 ^ n = of_int k + 1 / 2" "even k"
  shows "rnd x = Finite (of_int k / 2 ^ n)"
  using rnd_normal [OF assms(1-3)] rhe_tie_even [OF assms(4,5)] by simp

lemma format_f_eqI:
  assumes "0 \<le> h" "\<bar>h * 10 ^ p - real n\<bar> < 1 / 2"
  shows "format_f p (Finite h) = fixed_digits p n"
proof -
  from assms(2) have "\<bar>\<bar>h\<bar> * 10 ^ p - of_int (int n)\<bar> < 1 / 2" using assms(1) by simp
  then have "rhe (\<bar>h\<bar> * 10 ^ p) = int n" by (rule rhe_eqI)
  then show ?thesis using assms(1) by (simp add: scaled_def)
qed

lemma jaipur_inputs:
  "float_lit 26.9167 = Finite (7576377505627714 / 2 ^ 48)"
  "float_lit 75.8167 = Finite (5335125966694698 / 2 ^ 46)"
  "float_lit 23.44 = Finite (6597773454097777 / 2 ^ 48)"
proof -
  have "rnd 26.9167 = Finite (of_int 7576377505627714 / 2 ^ 48)"
    by (rule rnd_eqI) simp_all
  then show "float_lit 26.9167 = Finite (7576377505627714 / 2 ^ 48)" by (simp add: float_lit_def)
  have "rnd 75.8167 = Finite (of_int 5335125966694698 / 2 ^ 46)"
    by (rule rnd_eqI) simp_all
  then show "float_lit 75.8167 = Finite (5335125966694698 / 2 ^ 46)" by (simp add: float_lit_def)
  have "rnd 23.44 = Finite (of_int 6597773454097777 / 2 ^ 48)"
    by (rule rnd_eqI) simp_all
  then show "float_lit 23.44 = Finite (6597773454097777 / 2 ^ 48)" by (simp add: float_lit_def)
qed

lemma jaipur_radians:
  "math_radians (Finite (7576377505627714 / 2 ^ 48)) = Finite jaipur_rad"
proof -
  have "rnd (7576377505627714 / 2 ^ 48 * (5030569068109113 / 2 ^ 58))
          = Finite (of_int 8462894902223285 / 2 ^ 54)"
    by (rule rnd_eqI) simp_all
  then show ?thesis
    by (simp add: math_radians_def degToRad_eq fmul_Finite jaipur_rad_def)
qed

lemma jaipur_angles:
  "fsub (Finite 90) (Finite (7576377505627714 / 2 ^ 48)) = Finite (8878185199165663 / 2 ^ 47)"
  "fadd (Finite (8878185199165663 / 2 ^ 47)) (Finite (6597773454097777 / 2 ^ 48))
     = Finite (6088535963107276 / 2 ^ 46)"
  "fsub (Finite (8878185199165663 / 2 ^ 47)) (Finite (6597773454097777 / 2 ^ 48))
     = Finite (5579298472116774 / 2 ^ 47)"
proof -
  have "rnd (90 - 7576377505627714 / 2 ^ 48) = Finite (of_int 8878185199165663 / 2 ^ 47)"
    by (rule rnd_eqI) simp_all
  then show "fsub (Finite 90) (Finite (7576377505627714 / 2 ^ 48)) = Finite (8878185199165663 / 2 ^ 47)"
    by simp
  have "rnd (8878185199165663 / 2 ^ 47 + 6597773454097777 / 2 ^ 48)
          = Finite (of_int 6088535963107276 / 2 ^ 46)"
    by (rule rnd_eqI) simp_all
  then show "fadd (Finite (8878185199165663 / 2 ^ 47)) (Finite (6597773454097777 / 2 ^ 48))
     = Finite (6088535963107276 / 2 ^ 46)" by simp
  have "rnd (8878185199165663 / 2 ^ 47 - 6597773454097777 / 2 ^ 48)
          = Finite (of_int 5579298472116774 / 2 ^ 47)"
    by (rule rnd_eqI_tie) simp_all
  then show "fsub (Finite (8878185199165663 / 2 ^ 47)) (Finite (6597773454097777 / 2 ^ 48))
     = Finite (5579298472116774 / 2 ^ 47)" by simp
qed

lemma jaipur_offset:
  "fsub (Finite (5335125966694698 / 2 ^ 46)) IST_REFERENCE_LONGITUDE
     = Finite (- 7524726847401312 / 2 ^ 50)"
  "fmul (Finite (- 7524726847401312 / 2 ^ 50)) (Finite 4) = Finite (- 7524726847401312 / 2 ^ 48)"
  "fmul (fabs (Finite (- 7524726847401312 / 2 ^ 48))) (Finite 60) = Finite (7054431419438730 / 2 ^ 42)"
proof -
  have "rnd (5335125966694698 / 2 ^ 46 - 82.5) = Finite (of_int (- 7524726847401312) / 2 ^ 50)"
    by (rule rnd_eqI) simp_all
  then show "fsub (Finite (5335125966694698 / 2 ^ 46)) IST_REFERENCE_LONGITUDE
     = Finite (- 7524726847401312 / 2 ^ 50)"
    by (simp add: IST_REFERENCE_LONGITUDE_eq)
  have "rnd (- 7524726847401312 / 2 ^ 50 * 4) = Finite (of_int (- 7524726847401312) / 2 ^ 48)"
    by (rule rnd_eqI) simp_all
  then show "fmul (Finite (- 7524726847401312 / 2 ^ 50)) (Finite 4) = Finite (- 7524726847401312 / 2 ^ 48)"
    by (simp add: fmul_Finite)
  have "rnd (7524726847401312 / 2 ^ 48 * 60) = Finite (of_int 7054431419438730 / 2 ^ 42)"
    by (rule rnd_eqI) simp_all
  then show "fmul (fabs (Finite (- 7524726847401312 / 2 ^ 48))) (Finite 60) = Finite (7054431419438730 / 2 ^ 42)"
    by (simp add: fmul_Finite)
qed

lemma format_f_eqI2:
  assumes "0 \<le> h" "\<bar>h * 10 ^ p - real n\<bar> < 1 / 2" "fixed_digits p n = str"
  shows "format_f p (Finite h) = str"
  using format_f_eqI [OF assms(1,2)] assms(3) by (rule trans)

lemma abs_diff_le_D:
  fixes a b e :: real
  assumes "\<bar>a - b\<bar> \<le> e"
  shows "a \<le> b + e" "b - e \<le> a"
  using assms by linarith+

lemma abs_diff_less_I:
  fixes a b e :: real
  assumes "b - e < a" "a < b + e"
  shows "\<bar>a - b\<bar> < e"
  using assms by linarith

lemma jaipur_height:
  assumes fin: "is_finite T" and acc: "\<bar>fval T - tan jaipur_rad\<bar> \<le> 1 / 10 ^ 6"
  shows "format_f 3 (fmul (Finite 10) T) = ''5.077''"
proof -
  from abs_diff_le_D [OF acc] jaipur_trig(5,6)
  have t: "0.507659 < fval T" "fval T < 0.507741" by simp_all
  then have T: "T = Finite (fval T)" using fin by (cases T) simp_all
  have "10 * fval T < 2 ^ 3" using t by simp
  from fmul_nonneg [OF _ _ this]
  obtain h where h: "fmul (Finite 10) (Finite (fval T)) = Finite h" "0 \<le> h"
     "\<bar>h - 10 * fval T\<bar> \<le> 2 ^ 3 / 2 ^ 54" using t by auto
  from h(3) have "\<bar>h - 10 * fval T\<bar> \<le> 1 / 1000000" by (rule order_trans) simp
  from abs_diff_le_D [OF this] t have "5.0765 < h" "h < 5.0775" by simp_all
  then have "real 5077 - 1 / 2 < h * 10 ^ 3" "h * 10 ^ 3 < real 5077 + 1 / 2" by simp_all
  then have "\<bar>h * 10 ^ 3 - real 5077\<bar> < 1 / 2" by (rule abs_diff_less_I)
  from format_f_eqI2 [OF h(2) this] have "format_f 3 (Finite h) = ''5.077''"
    by (simp add: format_eval)
  then show ?thesis using h(1) T by simp
qed

lemma jaipur_formats:
  "format_f 4 (Finite (7576377505627714 / 2 ^ 48)) = ''26.9167''"
  "format_f 4 (Finite (5335125966694698 / 2 ^ 46)) = ''75.8167''"
  "format_f 3 (Finite 10) = ''10.000''"
  "format_f 3 (Finite (7576377505627714 / 2 ^ 48)) = ''26.917''"
  "format_f 3 (Finite (8878185199165663 / 2 ^ 47)) = ''63.083''"
  "format_f 3 (Finite (5579298472116774 / 2 ^ 47)) = ''39.643''"
  "format_f 3 (Finite (6088535963107276 / 2 ^ 46)) = ''86.523''"
proof -
  show "format_f 4 (Finite (7576377505627714 / 2 ^ 48)) = ''26.9167''"
    by (rule format_f_eqI2 [where n = 269167]) (simp_all add: format_eval)
  show "format_f 4 (Finite (5335125966694698 / 2 ^ 46)) = ''75.8167''"
    by (rule format_f_eqI2 [where n = 758167]) (simp_all add: format_eval)
  show "format_f 3 (Finite 10) = ''10.000''"
    by (rule format_f_eqI2 [where n = 10000]) (simp_all add: format_eval)
  show "format_f 3 (Finite (7576377505627714 / 2 ^ 48)) = ''26.917''"
    by (rule format_f_eqI2 [where n = 26917]) (simp_all add: format_eval)
  show "format_f 3 (Finite (8878185199165663 / 2 ^ 47)) = ''63.083''"
    by (rule format_f_eqI2 [where n = 63083]) (simp_all add: format_eval)
  show "format_f 3 (Finite (5579298472116774 / 2 ^ 47)) = ''39.643''"
    by (rule format_f_eqI2 [where n = 39643]) (simp_all add: format_eval)
  show "format_f 3 (Finite (6088535963107276 / 2 ^ 46)) = ''86.523''"
    by (rule format_f_eqI2 [where n = 86523]) (simp_all add: format_eval)
qed

lemma jaipur_time_offset:
  "calculate_time_offset (Finite (5335125966694698 / 2 ^ 46)) =
     Inr (''00h 26m 43s BEHIND IST'', Finite (- 7524726847401312 / 2 ^ 48))"
proof -
  have fl: "\<lfloor>7054431419438730 / 2 ^ 42 :: real\<rfloor> = 1603" by simp
  have s: "fmul (fabs (fmul (fsub (Finite (5335125966694698 / 2 ^ 46)) IST_REFERENCE_LONGITUDE)
                (Finite 4))) (Finite 60) = Finite (7054431419438730 / 2 ^ 42)"
    by (simp only: jaipur_offset)
  have b: "(0::real) \<le> 7054431419438730 / 2 ^ 42" "(7054431419438730 / 2 ^ 42 :: real) < 2 ^ 52"
    by simp_all
  show ?thesis
    unfolding calculate_time_offset_seconds [OF s b] fl jaipur_offset(1,2)
    by (simp add: fgt_def format_eval)
qed

lemma jaipur_result:
  assumes "is_finite (c_tan lm (Finite jaipur_rad))"
    and "\<bar>fval (c_tan lm (Finite jaipur_rad)) - tan jaipur_rad\<bar> \<le> 1 / 10 ^ 6"
  shows "calculate_yantra_dimensions lm (float_lit 26.9167) (float_lit 75.8167) (float_lit 10.0)
           = Inr jaipur_dimensions"
proof -
  have ten: "float_lit 10.0 = Finite 10" by simp
  have ninety: "float_lit 90.0 = Finite 90" by simp
  show ?thesis
    unfolding calculate_yantra_dimensions_def Let_def jaipur_inputs ten ninety jaipur_radians
      math_tan_def math_1_finite [of "c_tan lm", OF assms(1)] bind_Inr OBLIQUITY_ECLIPTIC_def
      jaipur_angles jaipur_time_offset jaipur_formats jaipur_height [OF assms]
      jaipur_dimensions_def
    by simp
qed

lemma cr_libm_jaipur:
  "is_finite (c_tan cr_libm (Finite jaipur_rad))"
  "\<bar>fval (c_tan cr_libm (Finite jaipur_rad)) - tan jaipur_rad\<bar> \<le> 1 / 10 ^ 6"
proof -
  have "\<bar>tan jaipur_rad\<bar> < 2 ^ 0" using jaipur_trig(5,6) by simp
  from rnd_error [OF this]
  have r: "is_finite (rnd (tan jaipur_rad))"
    "\<bar>fval (rnd (tan jaipur_rad)) - tan jaipur_rad\<bar> \<le> 2 ^ 0 / 2 ^ 54" by simp_all
  show "is_finite (c_tan cr_libm (Finite jaipur_rad))"
    using r(1) by (simp add: cr_libm_def correctly_rounded_def)
  from r(2) have "\<bar>fval (rnd (tan jaipur_rad)) - tan jaipur_rad\<bar> \<le> 1 / 10 ^ 6"
    by (rule order_trans) simp
  then show "\<bar>fval (c_tan cr_libm (Finite jaipur_rad)) - tan jaipur_rad\<bar> \<le> 1 / 10 ^ 6"
    by (simp add: cr_libm_def correctly_rounded_def)
qed

lemma calculate_yantra_dimensions_fields:
  assumes "calculate_yantra_dimensions lm latitude_phi longitude_lambda base_radius_R = Inr d"
  shows "yantra_dimensions.samrat_angle d = format_f 3 latitude_phi @ degree_sign"
    and "nadivalaya_tilt d = format_f 3 (fsub (float_lit 90) latitude_phi) @ degree_sign"
    and "rasivalaya_zd_ws d =
           format_f 3 (fadd (fsub (float_lit 90) latitude_phi) OBLIQUITY_ECLIPTIC) @ degree_sign"
    and "rasivalaya_zd_ss d =
           format_f 3 (fsub (fsub (float_lit 90) latitude_phi) OBLIQUITY_ECLIPTIC) @ degree_sign"
  using assms
  by (auto simp: calculate_yantra_dimensions_def Let_def bind_def split: sum.splits prod.splits)

lemma fsub_Finite_left: "is_finite y \<Longrightarrow> fsub (Finite a) y = rnd (a - fval y)"
  by (cases y) (simp_all add: fsub_def)

lemma printed_value_int:
  "\<exists>A::int. printed_value p x = of_int A / 10 ^ p \<and> \<bar>of_int A - fval x * 10 ^ p\<bar> \<le> 1 / 2"
proof (cases "fval x < 0")
  case True
  let ?n = "rhe (\<bar>fval x\<bar> * 10 ^ p)"
  have n0: "0 \<le> ?n" by (intro rhe_nonneg) simp
  have e: "\<bar>of_int ?n - \<bar>fval x\<bar> * 10 ^ p\<bar> \<le> 1 / 2" by (rule rhe_error)
  have "printed_value p x = of_int (- ?n) / 10 ^ p"
    using True n0 by (simp add: printed_value_def scaled_def)
  moreover have "\<bar>of_int (- ?n) - fval x * 10 ^ p\<bar> \<le> 1 / 2"
    using e True by (simp add: abs_if split: if_splits)
  ultimately show ?thesis by blast
next
  case False
  let ?n = "rhe (\<bar>fval x\<bar> * 10 ^ p)"
  have n0: "0 \<le> ?n" by (intro rhe_nonneg) simp
  have e: "\<bar>of_int ?n - \<bar>fval x\<bar> * 10 ^ p\<bar> \<le> 1 / 2" by (rule rhe_error)
  have "printed_value p x = of_int ?n / 10 ^ p"
    using False n0 by (simp add: printed_value_def scaled_def)
  moreover have "\<bar>of_int ?n - fval x * 10 ^ p\<bar> \<le> 1 / 2"
    using e False by simp
  ultimately show ?thesis by blast
qed

lemma printed_difference:
  assumes "\<bar>(fval x - fval y) * 10 ^ p - of_int c\<bar> \<le> 1 / 2"
  shows "\<bar>printed_value p x - printed_value p y - of_int c / 10 ^ p\<bar> \<le> 1 / 10 ^ p"
proof -
  obtain A where A: "printed_value p x = of_int A / 10 ^ p" "\<bar>of_int A - fval x * 10 ^ p\<bar> \<le> 1 / 2"
    using printed_value_int by blast
  obtain B where B: "printed_value p y = of_int B / 10 ^ p" "\<bar>of_int B - fval y * 10 ^ p\<bar> \<le> 1 / 2"
    using printed_value_int by blast
  have "(fval x - fval y) * 10 ^ p = fval x * 10 ^ p - fval y * 10 ^ p" by (simp add: algebra_simps)
  with assms A(2) B(2) have "\<bar>real_of_int A - of_int B - of_int c\<bar> \<le> 3 / 2" by linarith
  then have "\<bar>real_of_int (A - B - c)\<bar> < 2" by simp
  then have "\<bar>A - B - c\<bar> < 2" by linarith
  then have "\<bar>A - B - c\<bar> \<le> 1" by simp
  then have "\<bar>real_of_int (A - B - c)\<bar> \<le> 1" by linarith
  then have "\<bar>real_of_int (A - B - c)\<bar> / 10 ^ p \<le> 1 / 10 ^ p"
    by (intro divide_right_mono) simp_all
  moreover have "printed_value p x - printed_value p y - of_int c / 10 ^ p
      = real_of_int (A - B - c) / 10 ^ p"
    by (simp add: A(1) B(1) diff_divide_distrib)
  ultimately show ?thesis by (simp add: abs_divide)
qed

lemma zenith_distances:
  assumes "is_finite latitude_phi" "- 90 \<le> fval latitude_phi" "fval latitude_phi \<le> 90"
  defines "zd_eq \<equiv> fsub (Finite 90) latitude_phi"
  shows "is_finite (fadd zd_eq OBLIQUITY_ECLIPTIC) \<and> is_finite (fsub zd_eq OBLIQUITY_ECLIPTIC)
     \<and> \<bar>fval (fadd zd_eq OBLIQUITY_ECLIPTIC) - fval (fsub zd_eq OBLIQUITY_ECLIPTIC) - 2 * 23.44\<bar>
          \<le> 1 / 10 ^ 12"
proof -
  define r where "r = fval latitude_phi"
  have eps: "OBLIQUITY_ECLIPTIC = Finite (6597773454097777 / 2 ^ 48)"
    by (simp only: OBLIQUITY_ECLIPTIC_def jaipur_inputs)
  define eps :: real where "eps = 6597773454097777 / 2 ^ 48"
  have epsb: "\<bar>eps - 2344 / 100\<bar> \<le> 1 / 10000000000000" "0 \<le> eps" "eps \<le> 24"
    by (simp_all add: eps_def)
  have "zd_eq = rnd (90 - r)" unfolding zd_eq_def r_def using assms(1) by (rule fsub_Finite_left)
  moreover have "0 \<le> 90 - r" "90 - r < 2 ^ 8" using assms(2,3) by (simp_all add: r_def)
  from rnd_nonneg [OF this]
  obtain e where e: "rnd (90 - r) = Finite e" "0 \<le> e" "\<bar>e - (90 - r)\<bar> \<le> 2 ^ 8 / 2 ^ 54" by auto
  ultimately have zd: "zd_eq = Finite e" by simp
  from e(3) have "\<bar>e - (90 - r)\<bar> \<le> 1" by (rule order_trans) simp
  then have eb: "e \<le> 181" using assms(2) by (simp add: r_def)
  have "0 \<le> e + eps" "e + eps < 2 ^ 8" using e(2) eb epsb by simp_all
  from rnd_nonneg [OF this]
  obtain w where w: "rnd (e + eps) = Finite w" "\<bar>w - (e + eps)\<bar> \<le> 2 ^ 8 / 2 ^ 54" by auto
  have "\<bar>e - eps\<bar> < 2 ^ 8" using e(2) eb epsb by simp
  from rnd_error [OF this]
  have s: "is_finite (rnd (e - eps))" "\<bar>fval (rnd (e - eps)) - (e - eps)\<bar> \<le> 2 ^ 8 / 2 ^ 54"
    by simp_all
  from w(2) have w': "\<bar>w - (e + eps)\<bar> \<le> 1 / 10000000000000" by (rule order_trans) simp
  from s(2) have s': "\<bar>fval (rnd (e - eps)) - (e - eps)\<bar> \<le> 1 / 10000000000000"
    by (rule order_trans) simp
  from w' s' epsb(1) have "\<bar>w - fval (rnd (e - eps)) - 2 * (2344 / 100)\<bar> \<le> 1 / 1000000000000"
    by linarith
  moreover have fa: "fadd zd_eq OBLIQUITY_ECLIPTIC = rnd (e + eps)"
    unfolding zd eps eps_def by (rule fadd_Finite)
  moreover have fs: "fsub zd_eq OBLIQUITY_ECLIPTIC = rnd (e - eps)"
    unfolding zd eps eps_def by (rule fsub_Finite)
  ultimately show ?thesis
    using s(1) by (simp add: w(1))
qed


lemma abs_scale_thousand:
  fixes u c :: real
  assumes "\<bar>u - c\<bar> \<le> 1 / 10 ^ 12"
  shows "\<bar>u * 10 ^ 3 - c * 10 ^ 3\<bar> \<le> 1 / 2"
proof -
  from assms have "\<bar>u - c\<bar> \<le> 1 / 2000" by (rule order_trans) simp
  then have "\<bar>u * 1000 - c * 1000\<bar> \<le> 1 / 2" by linarith
  then show ?thesis by simp
qed

lemma cos_poly_bound14:
  fixes x :: real
  assumes "0 < x"
  shows "\<bar>cos x - (1 - x ^ 2 / 2 + x ^ 4 / 24 - x ^ 6 / 720 + x ^ 8 / 40320
            - x ^ 10 / 3628800 + x ^ 12 / 479001600)\<bar> \<le> x ^ 14 / 87178291200"
proof -
  from Maclaurin_cos_expansion2 [OF assms, of 14]
  obtain t where t: "cos x = (\<Sum>m<14. cos_coeff m * x ^ m)
      + cos (t + 1 / 2 * real 14 * pi) / fact 14 * x ^ 14"
    by auto
  have s: "(\<Sum>m<14. cos_coeff m * x ^ m) = 1 - x ^ 2 / 2 + x ^ 4 / 24 - x ^ 6 / 720
      + x ^ 8 / 40320 - x ^ 10 / 3628800 + x ^ 12 / 479001600"
    by (simp add: cos_coeff_def lessThan_nat_numeral fact_numeral)
  have f: "fact 14 = (87178291200::real)" by (simp add: fact_numeral)
  have "\<bar>cos (t + 1 / 2 * real 14 * pi) / fact 14 * x ^ 14\<bar> \<le> 1 / 87178291200 * x ^ 14"
    unfolding f abs_mult abs_divide using assms
    by (intro mult_mono divide_right_mono) (simp_all add: abs_cos_le_one)
  with t s show ?thesis by simp
qed

lemma pi_bounds: "3.14159 < pi" "pi < 3.1416"
proof -
  have two: "(2::real) \<le> pi" by (rule pi_ge_two)
  have ha: "cos (pi / 2) = 0" by simp
  let ?a = "1.570795 :: real"
  let ?b = "1.5708 :: real"
  have pa: "0 < cos ?a"
  proof -
    have "0 < 1 - ?a ^ 2 / 2 + ?a ^ 4 / 24 - ?a ^ 6 / 720 + ?a ^ 8 / 40320
            - ?a ^ 10 / 3628800 + ?a ^ 12 / 479001600 - ?a ^ 14 / 87178291200"
      by (simp add: power_divide)
    moreover have "(0::real) < ?a" by simp
    from cos_poly_bound14 [OF this] have "1 - ?a ^ 2 / 2 + ?a ^ 4 / 24 - ?a ^ 6 / 720 + ?a ^ 8 / 40320
            - ?a ^ 10 / 3628800 + ?a ^ 12 / 479001600 - ?a ^ 14 / 87178291200 \<le> cos ?a"
      by linarith
    ultimately show ?thesis by linarith
  qed
  have pb: "cos ?b < 0"
  proof -
    have "1 - ?b ^ 2 / 2 + ?b ^ 4 / 24 - ?b ^ 6 / 720 + ?b ^ 8 / 40320
            - ?b ^ 10 / 3628800 + ?b ^ 12 / 479001600 + ?b ^ 14 / 87178291200 < 0"
      by (simp add: power_divide)
    moreover have "(0::real) < ?b" by simp
    from cos_poly_bound14 [OF this] have "cos ?b \<le> 1 - ?b ^ 2 / 2 + ?b ^ 4 / 24 - ?b ^ 6 / 720
            + ?b ^ 8 / 40320 - ?b ^ 10 / 3628800 + ?b ^ 12 / 479001600 + ?b ^ 14 / 87178291200"
      by linarith
    ultimately show ?thesis by linarith
  qed
  have "?a < pi / 2"
  proof (rule ccontr)
    assume "\<not> ?a < pi / 2"
    then have "pi / 2 \<le> ?a" by simp
    moreover have "?a \<le> pi" using two by simp
    ultimately have "cos ?a \<le> cos (pi / 2)" by (intro cos_monotone_0_pi_le) simp_all
    with pa show False by simp
  qed
  then show "3.14159 < pi" by simp
  have "pi / 2 < ?b"
  proof (rule ccontr)
    assume "\<not> pi / 2 < ?b"
    then have "?b \<le> pi / 2" by simp
    moreover have "pi / 2 \<le> pi" by simp
    ultimately have "cos (pi / 2) \<le> cos ?b" by (intro cos_monotone_0_pi_le) simp_all
    with pb show False by simp
  qed
  then show "pi < 3.1416" by simp
qed

lemma degToRad_accuracy: "\<bar>5030569068109113 / 2 ^ 58 - pi / 180\<bar> \<le> 1 / 10 ^ 7"
proof -
  have "pi / 180 - 1 / 10 ^ 7 < 5030569068109113 / 2 ^ 58"
    "5030569068109113 / 2 ^ 58 < pi / 180 + 1 / 10 ^ 7"
    using pi_bounds by simp_all
  then have "\<bar>5030569068109113 / 2 ^ 58 - pi / 180\<bar> < 1 / 10 ^ 7" by (rule abs_diff_less_I)
  then show ?thesis by simp
qed

lemma math_radians_accuracy:
  assumes "is_finite x" "\<bar>fval x\<bar> \<le> 90"
  shows "is_finite (math_radians x) \<and> \<bar>fval (math_radians x) - fval x * pi / 180\<bar> \<le> 1 / 10 ^ 5"
proof -
  define c :: real where "c = 5030569068109113 / 2 ^ 58"
  have c: "degToRad = Finite c" by (simp add: degToRad_eq c_def)
  have cb: "0 \<le> c" "c \<le> 2 / 100" by (simp_all add: c_def)
  have ca: "\<bar>c - pi / 180\<bar> \<le> 1 / 10000000" using degToRad_accuracy by (simp add: c_def)
  have "\<bar>fval x * c\<bar> = \<bar>fval x\<bar> * c" using cb by (simp add: abs_mult)
  also have "\<dots> \<le> 90 * (2 / 100)" using assms(2) cb by (intro mult_mono) simp_all
  finally have "\<bar>fval x * fval (Finite c)\<bar> < 2 ^ 1" by simp
  from fmul_finite [OF assms(1) _ this]
  have m: "is_finite (math_radians x)" "\<bar>fval (math_radians x) - fval x * c\<bar> \<le> 2 ^ 1 / 2 ^ 54"
    by (simp_all add: math_radians_def c)
  from m(2) have e1: "\<bar>fval (math_radians x) - fval x * c\<bar> \<le> 1 / 1000000" by (rule order_trans) simp
  have "\<bar>fval x * c - fval x * pi / 180\<bar> = \<bar>fval x\<bar> * \<bar>c - pi / 180\<bar>"
    by (simp add: abs_mult [symmetric] algebra_simps)
  also have "\<dots> \<le> 90 * (1 / 10000000)" using assms(2) ca by (intro mult_mono) simp_all
  finally have e2: "\<bar>fval x * c - fval x * pi / 180\<bar> \<le> 9 / 1000000" by simp
  from e1 e2 have "\<bar>fval (math_radians x) - fval x * pi / 180\<bar> \<le> 1 / 100000" by linarith
  with m(1) show ?thesis by simp
qed

lemma fmul_accuracy:
  assumes "is_finite r" "is_finite t" "\<bar>fval r * fval t\<bar> < 2 ^ n" "n \<le> 1023"
    and "\<bar>fval t - v\<bar> \<le> \<bar>v\<bar> / 10 ^ 6"
  shows "\<bar>fval (fmul r t) - fval r * v\<bar> \<le> \<bar>fval r\<bar> * \<bar>v\<bar> / 10 ^ 6 + 2 ^ n / 2 ^ 54"
proof -
  from fmul_finite [OF assms(1-4)]
  have e1: "\<bar>fval (fmul r t) - fval r * fval t\<bar> \<le> 2 ^ n / 2 ^ 54" by simp
  have "\<bar>fval r * fval t - fval r * v\<bar> = \<bar>fval r\<bar> * \<bar>fval t - v\<bar>"
    by (simp add: abs_mult [symmetric] algebra_simps)
  also have "\<dots> \<le> \<bar>fval r\<bar> * (\<bar>v\<bar> / 10 ^ 6)" using assms(5) by (intro mult_left_mono) simp_all
  finally have e2: "\<bar>fval r * fval t - fval r * v\<bar> \<le> \<bar>fval r\<bar> * \<bar>v\<bar> / 10 ^ 6" by simp
  from e1 e2 show ?thesis by linarith
qed

lemma jaipur_radians_lit: "math_radians (float_lit 26.9167) = Finite jaipur_rad"
  by (simp only: jaipur_inputs jaipur_radians)

lemma cr_libm_jaipur_relative:
  "\<bar>fval (c_tan cr_libm (Finite jaipur_rad)) - tan jaipur_rad\<bar> \<le> \<bar>tan jaipur_rad\<bar> / 10 ^ 6"
proof -
  have "\<bar>tan jaipur_rad\<bar> < 2 ^ 0" using jaipur_trig(5,6) by simp
  from rnd_error [OF this]
  have "\<bar>fval (rnd (tan jaipur_rad)) - tan jaipur_rad\<bar> \<le> 2 ^ 0 / 2 ^ 54" by simp
  moreover have "(2::real) ^ 0 / 2 ^ 54 \<le> (1 / 2) / 10 ^ 6" by simp
  moreover have "(1 / 2) / 10 ^ 6 \<le> \<bar>tan jaipur_rad\<bar> / 10 ^ 6"
    using jaipur_trig(5) by (intro divide_right_mono) simp_all
  ultimately have "\<bar>fval (rnd (tan jaipur_rad)) - tan jaipur_rad\<bar> \<le> \<bar>tan jaipur_rad\<bar> / 10 ^ 6"
    by linarith
  then show ?thesis by (simp add: cr_libm_def correctly_rounded_def)
qed

lemma jaipur_valid:
  "fle (Finite 0) (float_lit 26.9167)" "fle (float_lit 26.9167) (Finite 90)"
  "fle (Finite 0) (float_lit 75.8167)" "fle (float_lit 75.8167) (Finite 180)"
  "fgt (float_lit 10.0) (Finite 0)"
  "fle (Finite (- 90)) (float_lit 26.9167)" "fle (Finite (- 180)) (float_lit 75.8167)"
  unfolding jaipur_inputs by (simp_all add: fgt_def)

lemma math_radians_zero: "math_radians (Finite 0) = Finite 0"
  by (simp add: math_radians_def degToRad_eq fmul_Finite signed_zero_def)

lemma cr_libm_tan_zero: "c_tan cr_libm (Finite 0) = Finite 0"
  by (simp add: cr_libm_def correctly_rounded_def)

lemma read_inputs_accepts:
  "read_inputs (Inr latitude) (Inr longitude) (Inr base_radius) =
     (if \<not> (fle (Finite 0) latitude \<and> fle latitude (Finite 90))
        then Inl (ValueError ''Latitude must be between 0 and 90.'')
      else if \<not> (fle (Finite 0) longitude \<and> fle longitude (Finite 180))
        then Inl (ValueError ''Longitude must be between 0 and 180 (East).'')
      else if fle base_radius (Finite 0) then Inl (ValueError ''Radius must be positive.'')
      else Inr (latitude, longitude, base_radius))"
  by (simp add: read_inputs_def)

text \<open>
  The parts of the validation that hold: a text that \<^verbatim>\<open>float\<close> rejects is reported
  before any range check; the bounds of the latitude are inclusive; a zero radius is
  rejected and a small positive one accepted.
\<close>

lemma read_inputs_malformed:
  "read_inputs (Inl (ValueError m)) longitude_in base_radius_in = Inl (ValueError m)"
  "read_inputs (Inr latitude) (Inl (ValueError m)) base_radius_in = Inl (ValueError m)"
  "read_inputs (Inr latitude) (Inr longitude) (Inl (ValueError m)) = Inl (ValueError m)"
  by (simp_all add: read_inputs_def)

lemma main_malformed:
  "main lm (Inl (ValueError m)) longitude_in base_radius_in = Invalid_input m"
  "main lm (Inr latitude) (Inl (ValueError m)) base_radius_in = Invalid_input m"
  "main lm (Inr latitude) (Inr longitude) (Inl (ValueError m)) = Invalid_input m"
  by (simp_all add: main_def read_inputs_malformed)

lemma float_lit_small:
  "float_lit 0.0001 = Finite (7378697629483821 / 2 ^ 66)"
  "float_lit 90.0001 = Finite (6333194012864178 / 2 ^ 46)"
proof -
  have "rnd 0.0001 = Finite (of_int 7378697629483821 / 2 ^ 66)"
    by (rule rnd_eqI) simp_all
  then show "float_lit 0.0001 = Finite (7378697629483821 / 2 ^ 66)" by (simp add: float_lit_def)
  have "rnd 90.0001 = Finite (of_int 6333194012864178 / 2 ^ 46)"
    by (rule rnd_eqI) simp_all
  then show "float_lit 90.0001 = Finite (6333194012864178 / 2 ^ 46)" by (simp add: float_lit_def)
qed

lemma validation_boundaries:
  "read_inputs (Inr (Finite 0)) (Inr (Finite 0)) (Inr (Finite 1)) = Inr (Finite 0, Finite 0, Finite 1)"
  "read_inputs (Inr (Finite 90)) (Inr (Finite 180)) (Inr (float_lit 0.0001))
     = Inr (Finite 90, Finite 180, float_lit 0.0001)"
  "read_inputs (Inr (float_lit 90.0001)) (Inr (Finite 0)) (Inr (Finite 1))
     = Inl (ValueError ''Latitude must be between 0 and 90.'')"
  "read_inputs (Inr (fneg (float_lit 0.0001))) (Inr (Finite 0)) (Inr (Finite 1))
     = Inl (ValueError ''Latitude must be between 0 and 90.'')"
  "read_inputs (Inr (Finite 0)) (Inr (Finite 0)) (Inr (Finite 0))
     = Inl (ValueError ''Radius must be positive.'')"
  unfolding float_lit_small by (simp_all add: read_inputs_def)


lemma calculate_yantra_dimensions_returns:
  assumes "is_finite longitude_lambda" "- 180 \<le> fval longitude_lambda"
    "fval longitude_lambda \<le> 180"
    and "is_finite (c_tan lm (math_radians latitude_phi)) \<or> is_nan latitude_phi \<and> c_tan lm NaN = NaN"
  shows "\<exists>d. calculate_yantra_dimensions lm latitude_phi longitude_lambda base_radius_R = Inr d
          \<and> yantra_dimensions.R d = format_f 3 base_radius_R
          \<and> yantra_dimensions.samrat_height d
               = format_f 3 (fmul base_radius_R (c_tan lm (math_radians latitude_phi)))"
proof -
  from calculate_time_offset_returns [OF assms(1-3)]
  obtain str where t: "calculate_time_offset longitude_lambda =
      Inr (str, fmul (fsub longitude_lambda IST_REFERENCE_LONGITUDE) (Finite 4))" by blast
  have "math_tan lm (math_radians latitude_phi) = Inr (c_tan lm (math_radians latitude_phi))"
  proof (cases "is_finite (c_tan lm (math_radians latitude_phi))")
    case True
    then show ?thesis by (simp add: math_tan_def math_1_finite)
  next
    case False
    with assms(4) have "is_nan latitude_phi" "c_tan lm NaN = NaN" by simp_all
    then show ?thesis
      by (cases latitude_phi) (simp_all add: math_tan_def math_1_def math_radians_def fmul_def)
  qed
  with t show ?thesis
    by (simp add: calculate_yantra_dimensions_def Let_def)
qed




text \<open>
  Splitting on whitespace beyond ASCII: a no-break space (U+00A0) or an ideographic
  space (U+3000) ends the first word; a string of whitespace only has no first word.
\<close>

lemma get_scale_factor_unicode_space:
  "get_scale_factor (Finite 3) (''m'' @ [CHR 0xC2, CHR 0xA0] @ ''x'') = Inr (Finite 3, ''m'')"
  "get_scale_factor (Finite 3) ([CHR 0xE3, CHR 0x80, CHR 0x80] @ ''ft'' @ [CHR 0x09] @ ''x'')
     = Inr (Finite 3, ''ft'')"
  "get_scale_factor (Finite 3) ([CHR 0xC2, CHR 0x85, CHR '' ''])
     = Inl (IndexError ''list index out of range'')"
  "get_scale_factor (Finite 3) [CHR 0xC2, CHR 0xB0] = Inr (Finite 3, [CHR 0xC2, CHR 0xB0])"
  by (simp_all add: get_scale_factor_def str_split_def space_length_def
        unicode_spaces_def is_space_def index0_def)

section \<open>The claims\<close>

text \<open>
  C2. For every longitude (a float between -180 and 180), \<^verbatim>\<open>calculate_time_offset\<close>
  returns the raw signed minutes \<open>(lambda - 82.5) * 4\<close> and the string made of the whole
  hours, minutes and seconds of the absolute seconds \<open>|minutes| * 60\<close>, obtained by
  integer division of the whole seconds, labelled AHEAD OF when the signed minutes are
  strictly positive and BEHIND otherwise. At \<open>lambda = 82.5\<close> the offset is exactly 0 and
  the label is BEHIND. The arithmetic is float arithmetic.
\<close>

theorem calculate_time_offset_correct:
  assumes "fle (Finite (- 180)) longitude_lambda" "fle longitude_lambda (Finite 180)"
  shows "calculate_time_offset longitude_lambda =
     (let signed_minutes = fmul (fsub longitude_lambda (Finite 82.5)) (Finite 4);
          whole_seconds = \<lfloor>fval (fmul (fabs signed_minutes) (Finite 60))\<rfloor>
      in Inr (format_02d (whole_seconds div 3600) @ ''h ''
                @ format_02d (whole_seconds mod 3600 div 60) @ ''m ''
                @ format_02d (whole_seconds mod 60) @ ''s ''
                @ (if 0 < fval signed_minutes then ''AHEAD OF'' else ''BEHIND'') @ '' IST'',
              signed_minutes))
     \<and> calculate_time_offset (Finite 82.5) = Inr (''00h 00m 00s BEHIND IST'', Finite 0)"
proof
  from fle_range [OF assms] have "is_finite longitude_lambda"
    "- 180 \<le> fval longitude_lambda" "fval longitude_lambda \<le> 180" by simp_all
  from time_offset_seconds_bounded [OF this]
  obtain s where s: "fmul (fabs (fmul (fsub longitude_lambda IST_REFERENCE_LONGITUDE) (Finite 4))) (Finite 60) = Finite s"
     "0 \<le> s" "s < 2 ^ 52" "is_finite (fmul (fsub longitude_lambda IST_REFERENCE_LONGITUDE) (Finite 4))"
    by blast
  show "calculate_time_offset longitude_lambda =
     (let signed_minutes = fmul (fsub longitude_lambda (Finite 82.5)) (Finite 4);
          whole_seconds = \<lfloor>fval (fmul (fabs signed_minutes) (Finite 60))\<rfloor>
      in Inr (format_02d (whole_seconds div 3600) @ ''h ''
                @ format_02d (whole_seconds mod 3600 div 60) @ ''m ''
                @ format_02d (whole_seconds mod 60) @ ''s ''
                @ (if 0 < fval signed_minutes then ''AHEAD OF'' else ''BEHIND'') @ '' IST'',
              signed_minutes))"
    using calculate_time_offset_seconds [OF s(1-3)] s(1,4)
    by (simp add: Let_def IST_REFERENCE_LONGITUDE_eq fgt_zero_finite)
next
  have z: "fmul (fabs (fmul (fsub (Finite 82.5) IST_REFERENCE_LONGITUDE) (Finite 4))) (Finite 60) = Finite 0"
    by (simp add: IST_REFERENCE_LONGITUDE_eq fmul_Finite signed_zero_def)
  show "calculate_time_offset (Finite 82.5) = Inr (''00h 00m 00s BEHIND IST'', Finite 0)"
    using calculate_time_offset_seconds [OF z]
    by (simp add: IST_REFERENCE_LONGITUDE_eq fmul_Finite signed_zero_def fgt_def
          format_02d_def zfill_def str_nat.simps digit_char_def)
qed

lemma rnd_15_2: "rnd (15 / 2) = Finite (15 / 2)"
proof -
  have "rnd (15 / 2) = Finite (of_int (15 * 2 ^ 49) / 2 ^ 50)"
    by (rule rnd_eqI) simp_all
  then show ?thesis by simp
qed

theorem calculate_time_offset_correct_witness:
  "fle (Finite (- 180)) (Finite 90) \<and> fle (Finite 90) (Finite 180)
   \<and> calculate_time_offset (Finite 90) = Inr (''00h 30m 00s AHEAD OF IST'', Finite 30)"
  using calculate_time_offset_correct [of "Finite 90"]
  by (simp add: rnd_15_2 fmul_Finite Let_def format_02d_def zfill_def str_nat.simps digit_char_def)

text \<open>
  C10. On every input, the calculator copied into \<^verbatim>\<open>yantra_report_app.py\<close> returns
  the same result as the calculator of \<^verbatim>\<open>yantra_core.py\<close>: the same dictionary, field
  by field, or the same error.
\<close>

theorem report_calculator_identical:
  "report_calculate_yantra_dimensions lm latitude_phi longitude_lambda base_radius_R =
   calculate_yantra_dimensions lm latitude_phi longitude_lambda base_radius_R"
  by (simp add: report_calculate_yantra_dimensions_def calculate_yantra_dimensions_def
      report_calculate_time_offset_def calculate_time_offset_def
      report_OBLIQUITY_ECLIPTIC_def OBLIQUITY_ECLIPTIC_def
      report_IST_REFERENCE_LONGITUDE_def IST_REFERENCE_LONGITUDE_def)

text \<open>
  C7. For every input radius and every unit of the selection box, \<^verbatim>\<open>get_scale_factor\<close>
  returns the radius times 0.02 with the symbol \<^verbatim>\<open>m\<close> for the traditional unit (Angula),
  and the radius unchanged with the unit's own label for every other unit. An input of
  500 Angula gives the effective radius 10.0 with the symbol \<^verbatim>\<open>m\<close>.
\<close>

theorem unit_resolution:
  "list_all (\<lambda>unit_name.
      get_scale_factor radius unit_name =
        (if unit_name = ''Angula (approx. 2cm)''
         then Inr (fmul radius (float_lit 0.02), ''m'')
         else Inr (radius, unit_name))) units
   \<and> get_scale_factor (Finite 500) ''Angula (approx. 2cm)'' = Inr (Finite 10, ''m'')"
  using angula_500
  by (simp add: units_def get_scale_factor_def str_split_def space_length_def
        unicode_spaces_def is_space_def index0_def)

text \<open>
  C8. For every finite decimal-degree value (of magnitude below \<open>2 ^ 52\<close>),
  \<^verbatim>\<open>deg_to_dms\<close> prints the integer part of the magnitude as degrees, the integer part
  of the fractional remainder times 60 as minutes, and the remainder of that times 60,
  to 2 decimals, as seconds. The sign is never printed: the conversion of a value is the
  conversion of its absolute value, for every float.
\<close>

theorem deg_to_dms_decomposition:
  "(is_finite x \<and> \<bar>fval x\<bar> < 2 ^ 52 \<longrightarrow>
      deg_to_dms (Some x) =
       (let d = \<lfloor>\<bar>fval x\<bar>\<rfloor>;
            m_float = fmul (fsub (Finite \<bar>fval x\<bar>) (Finite (of_int d))) (Finite 60);
            m = \<lfloor>fval m_float\<rfloor>;
            s = fmul (fsub m_float (Finite (of_int m))) (Finite 60)
        in Inr (str_int d @ degree_sign @ '' '' @ str_int m @ [CHR 0x27, CHR '' '']
                  @ format_f 2 s @ [CHR 0x22])))
   \<and> deg_to_dms (Some x) = deg_to_dms (Some (fabs x))"
  using deg_to_dms_finite [of x] by (simp add: deg_to_dms_def)


theorem deg_to_dms_decomposition_witness:
  "is_finite (Finite (- 26.5)) \<and> \<bar>fval (Finite (- 26.5))\<bar> < 2 ^ 52
   \<and> deg_to_dms (Some (Finite (- 26.5))) =
       Inr (''26'' @ degree_sign @ '' 30'' @ [CHR 0x27, CHR '' ''] @ ''0.00'' @ [CHR 0x22])
   \<and> deg_to_dms (Some (Finite (- 26.5))) = deg_to_dms (Some (Finite 26.5))"
proof -
  have h: "rnd (1 / 2) = Finite (1 / 2)"
    using float_lit_half by (simp add: float_lit_def)
  have fl: "\<lfloor>53 / 2 :: real\<rfloor> = 26" by simp
  show ?thesis
    using deg_to_dms_decomposition [of "Finite (- 26.5)"]
    by (auto simp: Let_def fl h fmul_Finite signed_zero_def format_eval)
qed

text \<open>
  C4 (amended). At latitude 26.9167, longitude 75.8167 and radius 10.0, with any C
  library whose tangent at the latitude's radians is finite and within \<open>10 ^ -6\<close> of the
  true tangent, the calculator returns \<^verbatim>\<open>samrat_angle\<close> 26.917 degrees,
  \<^verbatim>\<open>samrat_height\<close> 5.077 (the claim's 5.081 is not what \<open>10 * tan\<close> of 26.9167 degrees
  gives), \<^verbatim>\<open>nadivalaya_tilt\<close> 63.083 degrees, \<^verbatim>\<open>rasivalaya_zd_ws\<close> 86.523 degrees,
  \<^verbatim>\<open>rasivalaya_zd_ss\<close> 39.643 degrees, a raw time offset within 0.001 of -26.733
  minutes, and the offset string \<^verbatim>\<open>00h 26m 43s BEHIND IST\<close>.
\<close>

theorem jaipur_scenario:
  assumes "is_finite (c_tan lm (math_radians (float_lit 26.9167)))"
    and "\<bar>fval (c_tan lm (math_radians (float_lit 26.9167)))
           - tan (fval (math_radians (float_lit 26.9167)))\<bar> \<le> 1 / 10 ^ 6"
  shows "\<exists>d. calculate_yantra_dimensions lm (float_lit 26.9167) (float_lit 75.8167) (float_lit 10.0)
             = Inr d
          \<and> yantra_dimensions.samrat_angle d = ''26.917'' @ degree_sign
          \<and> yantra_dimensions.samrat_height d = ''5.077''
          \<and> nadivalaya_tilt d = ''63.083'' @ degree_sign
          \<and> rasivalaya_zd_ws d = ''86.523'' @ degree_sign
          \<and> rasivalaya_zd_ss d = ''39.643'' @ degree_sign
          \<and> \<bar>fval (time_offset_min d) - (- 26.733)\<bar> \<le> 1 / 1000
          \<and> time_offset_str d = ''00h 26m 43s BEHIND IST''"
proof -
  have r: "math_radians (float_lit 26.9167) = Finite jaipur_rad"
    by (simp only: jaipur_inputs jaipur_radians)
  from assms have "is_finite (c_tan lm (Finite jaipur_rad))"
    "\<bar>fval (c_tan lm (Finite jaipur_rad)) - tan jaipur_rad\<bar> \<le> 1 / 10 ^ 6"
    unfolding r by simp_all
  from jaipur_result [OF this] show ?thesis
    by (simp add: jaipur_dimensions_def)
qed

theorem jaipur_scenario_witness:
  "is_finite (c_tan cr_libm (math_radians (float_lit 26.9167)))
   \<and> \<bar>fval (c_tan cr_libm (math_radians (float_lit 26.9167)))
           - tan (fval (math_radians (float_lit 26.9167)))\<bar> \<le> 1 / 10 ^ 6
   \<and> (\<exists>d. calculate_yantra_dimensions cr_libm (float_lit 26.9167) (float_lit 75.8167)
              (float_lit 10.0) = Inr d
          \<and> yantra_dimensions.samrat_angle d = ''26.917'' @ degree_sign
          \<and> yantra_dimensions.samrat_height d = ''5.077''
          \<and> nadivalaya_tilt d = ''63.083'' @ degree_sign
          \<and> rasivalaya_zd_ws d = ''86.523'' @ degree_sign
          \<and> rasivalaya_zd_ss d = ''39.643'' @ degree_sign
          \<and> \<bar>fval (time_offset_min d) - (- 26.733)\<bar> \<le> 1 / 1000
          \<and> time_offset_str d = ''00h 26m 43s BEHIND IST'')"
proof -
  have r: "math_radians (float_lit 26.9167) = Finite jaipur_rad"
    by (simp only: jaipur_inputs jaipur_radians)
  have h: "is_finite (c_tan cr_libm (math_radians (float_lit 26.9167)))"
    "\<bar>fval (c_tan cr_libm (math_radians (float_lit 26.9167)))
           - tan (fval (math_radians (float_lit 26.9167)))\<bar> \<le> 1 / 10 ^ 6"
    unfolding r using cr_libm_jaipur by simp_all
  from jaipur_scenario [OF h] h show ?thesis by blast
qed

text \<open>
  C4 as stated fails: with a correctly rounded tangent the calculator's
  \<^verbatim>\<open>samrat_height\<close> at this input is not \<^verbatim>\<open>5.081\<close>.
\<close>

theorem jaipur_height_counterexample:
  "yantra_dimensions.samrat_height
     (projr (calculate_yantra_dimensions cr_libm (float_lit 26.9167) (float_lit 75.8167)
        (float_lit 10.0))) \<noteq> ''5.081''"
  unfolding jaipur_result [OF cr_libm_jaipur]
  by (simp add: jaipur_dimensions_def)

text \<open>
  C1. For every validated input (latitude in \<open>[0, 90]\<close>, longitude in \<open>[0, 180]\<close>,
  radius \<open>R > 0\<close>) at which the C library's tangent is finite and accurate to a relative
  \<open>10 ^ -6\<close>, the calculator of \<^verbatim>\<open>yantra_core.py\<close> returns, with \<^verbatim>\<open>samrat_angle\<close> the
  latitude formatted to 3 decimals, \<^verbatim>\<open>samrat_height\<close> the float product of the radius
  and the tangent of the latitude's radians formatted to 3 decimals, and
  \<^verbatim>\<open>nadivalaya_tilt\<close> the float difference \<open>90 - phi\<close> formatted to 3 decimals; the two
  angles carry a degree sign. The radians are \<open>phi * pi / 180\<close> up to \<open>10 ^ -5\<close>, the
  difference is \<open>90 - phi\<close> up to \<open>2 ^ -46\<close>, and for a finite radius the product is the
  radius times the true tangent of those radians up to the relative \<open>10 ^ -6\<close> of the
  library and one rounding.
\<close>

theorem samrat_and_nadivalaya_fields:
  assumes "fle (Finite 0) latitude_phi" "fle latitude_phi (Finite 90)"
    and "fle (Finite 0) longitude_lambda" "fle longitude_lambda (Finite 180)"
    and "fgt base_radius_R (Finite 0)"
    and "is_finite (c_tan lm (math_radians latitude_phi))"
    and "\<bar>fval (c_tan lm (math_radians latitude_phi)) - tan (fval (math_radians latitude_phi))\<bar>
           \<le> \<bar>tan (fval (math_radians latitude_phi))\<bar> / 10 ^ 6"
  shows "\<exists>d. calculate_yantra_dimensions lm latitude_phi longitude_lambda base_radius_R = Inr d
          \<and> yantra_dimensions.samrat_angle d = format_f 3 latitude_phi @ degree_sign
          \<and> yantra_dimensions.samrat_height d =
              format_f 3 (fmul base_radius_R (c_tan lm (math_radians latitude_phi)))
          \<and> nadivalaya_tilt d = format_f 3 (fsub (Finite 90) latitude_phi) @ degree_sign
          \<and> is_finite (math_radians latitude_phi)
          \<and> \<bar>fval (math_radians latitude_phi) - fval latitude_phi * pi / 180\<bar> \<le> 1 / 10 ^ 5
          \<and> is_finite (fsub (Finite 90) latitude_phi)
          \<and> \<bar>fval (fsub (Finite 90) latitude_phi) - (90 - fval latitude_phi)\<bar> \<le> 1 / 2 ^ 46
          \<and> (is_finite base_radius_R \<and> n \<le> 1023
               \<and> \<bar>fval base_radius_R * fval (c_tan lm (math_radians latitude_phi))\<bar> < 2 ^ n
               \<longrightarrow> \<bar>fval (fmul base_radius_R (c_tan lm (math_radians latitude_phi)))
                     - fval base_radius_R * tan (fval (math_radians latitude_phi))\<bar>
                   \<le> \<bar>fval base_radius_R\<bar> * \<bar>tan (fval (math_radians latitude_phi))\<bar> / 10 ^ 6
                       + 2 ^ n / 2 ^ 54)"
proof -
  from fle_range [OF assms(1,2)]
  have lat: "is_finite latitude_phi" "0 \<le> fval latitude_phi" "fval latitude_phi \<le> 90" by simp_all
  from fle_range [OF assms(3,4)] have "is_finite longitude_lambda"
    "- 180 \<le> fval longitude_lambda" "fval longitude_lambda \<le> 180" by simp_all
  from calculate_time_offset_returns [OF this]
  obtain str where "calculate_time_offset longitude_lambda =
      Inr (str, fmul (fsub longitude_lambda IST_REFERENCE_LONGITUDE) (Finite 4))" by blast
  then have c: "\<exists>d. calculate_yantra_dimensions lm latitude_phi longitude_lambda base_radius_R = Inr d
          \<and> yantra_dimensions.samrat_angle d = format_f 3 latitude_phi @ degree_sign
          \<and> yantra_dimensions.samrat_height d =
              format_f 3 (fmul base_radius_R (c_tan lm (math_radians latitude_phi)))
          \<and> nadivalaya_tilt d = format_f 3 (fsub (Finite 90) latitude_phi) @ degree_sign"
    by (simp add: calculate_yantra_dimensions_def Let_def math_tan_def
          math_1_finite [of "c_tan lm", OF assms(6)])
  have "\<bar>fval latitude_phi\<bar> \<le> 90" using lat by simp
  from math_radians_accuracy [OF lat(1) this]
  have r: "is_finite (math_radians latitude_phi)"
    "\<bar>fval (math_radians latitude_phi) - fval latitude_phi * pi / 180\<bar> \<le> 1 / 10 ^ 5" by simp_all
  have "\<bar>90 - fval latitude_phi\<bar> < 2 ^ 8" using lat by simp
  from rnd_error [OF this]
  have t: "is_finite (fsub (Finite 90) latitude_phi)"
    "\<bar>fval (fsub (Finite 90) latitude_phi) - (90 - fval latitude_phi)\<bar> \<le> 1 / 2 ^ 46"
    by (simp_all add: fsub_Finite_left [OF lat(1)])
  have p: "is_finite base_radius_R \<and> n \<le> 1023
               \<and> \<bar>fval base_radius_R * fval (c_tan lm (math_radians latitude_phi))\<bar> < 2 ^ n
               \<longrightarrow> \<bar>fval (fmul base_radius_R (c_tan lm (math_radians latitude_phi)))
                     - fval base_radius_R * tan (fval (math_radians latitude_phi))\<bar>
                   \<le> \<bar>fval base_radius_R\<bar> * \<bar>tan (fval (math_radians latitude_phi))\<bar> / 10 ^ 6
                       + 2 ^ n / 2 ^ 54"
    using fmul_accuracy [OF _ assms(6) _ _ assms(7), of base_radius_R n] by blast
  from c r t p show ?thesis by blast
qed

theorem samrat_and_nadivalaya_fields_witness:
  "fle (Finite 0) (float_lit 26.9167) \<and> fle (float_lit 26.9167) (Finite 90)
   \<and> fle (Finite 0) (float_lit 75.8167) \<and> fle (float_lit 75.8167) (Finite 180)
   \<and> fgt (float_lit 10.0) (Finite 0)
   \<and> is_finite (c_tan cr_libm (math_radians (float_lit 26.9167)))
   \<and> \<bar>fval (c_tan cr_libm (math_radians (float_lit 26.9167)))
         - tan (fval (math_radians (float_lit 26.9167)))\<bar>
        \<le> \<bar>tan (fval (math_radians (float_lit 26.9167)))\<bar> / 10 ^ 6
   \<and> (\<exists>d. calculate_yantra_dimensions cr_libm (float_lit 26.9167) (float_lit 75.8167)
              (float_lit 10.0) = Inr d
          \<and> yantra_dimensions.samrat_angle d = ''26.917'' @ degree_sign
          \<and> yantra_dimensions.samrat_height d = ''5.077''
          \<and> nadivalaya_tilt d = ''63.083'' @ degree_sign)
   \<and> \<bar>fval (math_radians (float_lit 26.9167)) - fval (float_lit 26.9167) * pi / 180\<bar>
        \<le> 1 / 10 ^ 5
   \<and> \<bar>fval (fmul (float_lit 10.0) (c_tan cr_libm (math_radians (float_lit 26.9167))))
         - fval (float_lit 10.0) * tan (fval (math_radians (float_lit 26.9167)))\<bar>
        \<le> \<bar>fval (float_lit 10.0)\<bar> * \<bar>tan (fval (math_radians (float_lit 26.9167)))\<bar> / 10 ^ 6
            + 2 ^ 3 / 2 ^ 54"
proof -
  have h: "is_finite (c_tan cr_libm (math_radians (float_lit 26.9167)))"
    "\<bar>fval (c_tan cr_libm (math_radians (float_lit 26.9167)))
         - tan (fval (math_radians (float_lit 26.9167)))\<bar>
        \<le> \<bar>tan (fval (math_radians (float_lit 26.9167)))\<bar> / 10 ^ 6"
    unfolding jaipur_radians_lit using cr_libm_jaipur(1) cr_libm_jaipur_relative by simp_all
  have ten: "float_lit 10.0 = Finite 10" by simp
  have b: "is_finite (float_lit 10.0) \<and> (3::nat) \<le> 1023
     \<and> \<bar>fval (float_lit 10.0) * fval (c_tan cr_libm (math_radians (float_lit 26.9167)))\<bar> < 2 ^ 3"
  proof -
    from abs_diff_le_D [OF cr_libm_jaipur(2)] jaipur_trig(5,6)
    have "0 < fval (c_tan cr_libm (Finite jaipur_rad))" "fval (c_tan cr_libm (Finite jaipur_rad)) < 0.6"
      by simp_all
    then show ?thesis unfolding jaipur_radians_lit ten by simp
  qed
  have d: "\<exists>d. calculate_yantra_dimensions cr_libm (float_lit 26.9167) (float_lit 75.8167)
              (float_lit 10.0) = Inr d
          \<and> yantra_dimensions.samrat_angle d = ''26.917'' @ degree_sign
          \<and> yantra_dimensions.samrat_height d = ''5.077''
          \<and> nadivalaya_tilt d = ''63.083'' @ degree_sign"
    using jaipur_result [OF cr_libm_jaipur] by (simp add: jaipur_dimensions_def)
  from samrat_and_nadivalaya_fields [OF jaipur_valid(1-5) h, of 3] b d jaipur_valid(1-5) h
  show ?thesis by blast
qed

text \<open>
  C5. For every latitude (a float between -90 and 90), with a longitude between -180
  and 180 and a finite tangent from the C library, the calculator returns, with
  \<^verbatim>\<open>rasivalaya_zd_ws\<close> the float \<open>(90 - phi) + 23.44\<close> and \<^verbatim>\<open>rasivalaya_zd_ss\<close> the float
  \<open>(90 - phi) - 23.44\<close>, each formatted to 3 decimals with a degree sign. The two floats
  differ by \<open>2 * 23.44\<close> up to \<open>10 ^ -12\<close>, and the two printed numbers differ by
  \<open>2 * 23.44\<close> up to one unit of the last printed decimal.
\<close>

theorem rasivalaya_zenith_distances:
  assumes "fle (Finite (- 90)) latitude_phi" "fle latitude_phi (Finite 90)"
    and "fle (Finite (- 180)) longitude_lambda" "fle longitude_lambda (Finite 180)"
    and "is_finite (c_tan lm (math_radians latitude_phi))"
  shows "\<exists>d. calculate_yantra_dimensions lm latitude_phi longitude_lambda base_radius_R = Inr d
     \<and> rasivalaya_zd_ws d =
           format_f 3 (fadd (fsub (Finite 90) latitude_phi) (float_lit 23.44)) @ degree_sign
     \<and> rasivalaya_zd_ss d =
           format_f 3 (fsub (fsub (Finite 90) latitude_phi) (float_lit 23.44)) @ degree_sign
     \<and> is_finite (fadd (fsub (Finite 90) latitude_phi) (float_lit 23.44))
     \<and> is_finite (fsub (fsub (Finite 90) latitude_phi) (float_lit 23.44))
     \<and> \<bar>fval (fadd (fsub (Finite 90) latitude_phi) (float_lit 23.44))
          - fval (fsub (fsub (Finite 90) latitude_phi) (float_lit 23.44)) - 2 * 23.44\<bar>
          \<le> 1 / 10 ^ 12
     \<and> \<bar>printed_value 3 (fadd (fsub (Finite 90) latitude_phi) (float_lit 23.44))
          - printed_value 3 (fsub (fsub (Finite 90) latitude_phi) (float_lit 23.44))
          - 2 * 23.44\<bar> \<le> 1 / 1000"
proof -
  let ?ws = "fadd (fsub (Finite 90) latitude_phi) (float_lit 23.44)"
  let ?ss = "fsub (fsub (Finite 90) latitude_phi) (float_lit 23.44)"
  from fle_range [OF assms(1,2)]
  have lat: "is_finite latitude_phi" "- 90 \<le> fval latitude_phi" "fval latitude_phi \<le> 90"
    by simp_all
  from fle_range [OF assms(3,4)] have "is_finite longitude_lambda"
    "- 180 \<le> fval longitude_lambda" "fval longitude_lambda \<le> 180" by simp_all
  from calculate_time_offset_returns [OF this]
  obtain str where "calculate_time_offset longitude_lambda =
      Inr (str, fmul (fsub longitude_lambda IST_REFERENCE_LONGITUDE) (Finite 4))" by blast
  then obtain d where
    d: "calculate_yantra_dimensions lm latitude_phi longitude_lambda base_radius_R = Inr d"
    by (simp add: calculate_yantra_dimensions_def Let_def math_tan_def
          math_1_finite [of "c_tan lm", OF assms(5)])
  from zenith_distances [OF lat]
  have z: "is_finite ?ws" "is_finite ?ss" "\<bar>fval ?ws - fval ?ss - 2 * 23.44\<bar> \<le> 1 / 10 ^ 12"
    by (simp_all add: OBLIQUITY_ECLIPTIC_def)
  have ninety: "float_lit 90 = Finite 90" by simp
  note f = calculate_yantra_dimensions_fields(3,4) [OF d, unfolded ninety OBLIQUITY_ECLIPTIC_def]
  from abs_scale_thousand [OF z(3)]
  have "\<bar>(fval ?ws - fval ?ss) * 10 ^ 3 - of_int 46880\<bar> \<le> 1 / 2" by simp
  from printed_difference [OF this]
  have "\<bar>printed_value 3 ?ws - printed_value 3 ?ss - 2 * 23.44\<bar> \<le> 1 / 1000" by simp
  with d f z show ?thesis by blast
qed

theorem rasivalaya_zenith_distances_witness:
  "fle (Finite (- 90)) (float_lit 26.9167) \<and> fle (float_lit 26.9167) (Finite 90)
   \<and> fle (Finite (- 180)) (float_lit 75.8167) \<and> fle (float_lit 75.8167) (Finite 180)
   \<and> is_finite (c_tan cr_libm (math_radians (float_lit 26.9167)))
   \<and> (\<exists>d. calculate_yantra_dimensions cr_libm (float_lit 26.9167) (float_lit 75.8167)
              (float_lit 10.0) = Inr d
          \<and> rasivalaya_zd_ws d = ''86.523'' @ degree_sign
          \<and> rasivalaya_zd_ss d = ''39.643'' @ degree_sign)
   \<and> \<bar>printed_value 3 (fadd (fsub (Finite 90) (float_lit 26.9167)) (float_lit 23.44))
          - printed_value 3 (fsub (fsub (Finite 90) (float_lit 26.9167)) (float_lit 23.44))
          - 2 * 23.44\<bar> \<le> 1 / 1000"
proof -
  have h: "is_finite (c_tan cr_libm (math_radians (float_lit 26.9167)))"
    unfolding jaipur_radians_lit by (rule cr_libm_jaipur(1))
  have d: "\<exists>d. calculate_yantra_dimensions cr_libm (float_lit 26.9167) (float_lit 75.8167)
              (float_lit 10.0) = Inr d
          \<and> rasivalaya_zd_ws d = ''86.523'' @ degree_sign
          \<and> rasivalaya_zd_ss d = ''39.643'' @ degree_sign"
    using jaipur_result [OF cr_libm_jaipur] by (simp add: jaipur_dimensions_def)
  from rasivalaya_zenith_distances [OF jaipur_valid(6,2,7,4) h, of "float_lit 10.0"]
    d jaipur_valid(6,2,7,4) h
  show ?thesis by blast
qed

text \<open>
  C3 (the code departs from the claim). \<^verbatim>\<open>main\<close> rejects a radius with the test
  \<^verbatim>\<open>base_radius <= 0\<close>, which is false on a NaN: the radius text \<^verbatim>\<open>nan\<close>, which
  \<^verbatim>\<open>float\<close> accepts, is not a strictly positive radius and yet passes validation; the
  calculation runs and the report carries \<^verbatim>\<open>nan\<close> for the radius and the gnomon
  height. The latitude and longitude checks, written \<^verbatim>\<open>not (lo <= x <= hi)\<close>, do reject
  a NaN.
\<close>

theorem main_accepts_nan_radius:
  "read_inputs (Inr (Finite 0)) (Inr (Finite 90)) (Inr NaN) = Inr (Finite 0, Finite 90, NaN)
   \<and> (case main cr_libm (Inr (Finite 0)) (Inr (Finite 90)) (Inr NaN) of
         Report d \<Rightarrow> yantra_dimensions.R d = ''nan'' \<and> yantra_dimensions.samrat_height d = ''nan''
       | Invalid_input m \<Rightarrow> False
       | Uncaught e \<Rightarrow> False)
   \<and> read_inputs (Inr NaN) (Inr (Finite 90)) (Inr (Finite 1))
        = Inl (ValueError ''Latitude must be between 0 and 90.'')
   \<and> read_inputs (Inr (Finite 0)) (Inr NaN) (Inr (Finite 1))
        = Inl (ValueError ''Longitude must be between 0 and 180 (East).'')"
proof -
  have "is_finite (c_tan cr_libm (math_radians (Finite 0)))
          \<or> is_nan (Finite 0) \<and> c_tan cr_libm NaN = NaN"
    by (simp add: math_radians_zero cr_libm_tan_zero)
  from calculate_yantra_dimensions_returns [OF _ _ _ this, of "Finite 90" NaN]
  obtain d where "calculate_yantra_dimensions cr_libm (Finite 0) (Finite 90) NaN = Inr d"
    "yantra_dimensions.R d = ''nan''" "yantra_dimensions.samrat_height d = ''nan''"
    by (auto simp: fmul_def)
  then show ?thesis
    by (simp add: main_def read_inputs_def)
qed




end
